theory Spec2Isabelle
  imports Complex_Main
begin

section \<open>Python values used by the backend\<close>

text \<open>
  A Python \<open>str\<close> is a sequence of code points and \<open>len\<close> counts code points. A
  \<^typ>\<open>string\<close> is a list of \<^typ>\<open>char\<close>; one \<^typ>\<open>char\<close> stands for one code
  point in the range U+0000 to U+00FF.
\<close>

definition nl :: string where
  "nl = [CHR 0x0A]"

definition digit_char :: "nat \<Rightarrow> char" where
  "digit_char d = char_of (48 + d)"

text \<open>\<open>str(n)\<close> and \<open>f"{n}"\<close> for a Python \<open>int\<close>: the decimal digits, with a minus sign.\<close>

function str_nat :: "nat \<Rightarrow> string" where
  "str_nat n = (if n < 10 then [digit_char n] else str_nat (n div 10) @ [digit_char (n mod 10)])"
  by pat_completeness auto
termination
  by (relation "measure (\<lambda>n. n)") auto

declare str_nat.simps [simp del]

definition str_int :: "int \<Rightarrow> string" where
  "str_int i = (if i < 0 then ''-'' @ str_nat (nat (- i)) else str_nat (nat i))"

text \<open>
  The values \<open>json.loads\<close> produces and the dictionaries the backend passes around. A
  Python \<open>dict\<close> keeps its keys in insertion order and has no duplicate key: it is an
  association list whose keys are distinct.
\<close>

datatype json =
    JNull
  | JBool bool
  | JInt int
  | JFloat real
  | JStr string
  | JArr "json list"
  | JObj "(string \<times> json) list"

type_synonym pydict = "(string \<times> json) list"

text \<open>\<open>d[k] = v\<close>: an existing key keeps its position.\<close>

fun dict_set :: "string \<Rightarrow> json \<Rightarrow> pydict \<Rightarrow> pydict" where
  "dict_set k v [] = [(k, v)]"
| "dict_set k v ((k', v') # kvs) =
     (if k = k' then (k, v) # kvs else (k', v') # dict_set k v kvs)"

text \<open>\<open>d.get(k, default)\<close> on a field that may be absent.\<close>

definition get_or :: "'a \<Rightarrow> 'a option \<Rightarrow> 'a" where
  "get_or dflt field = (case field of None \<Rightarrow> dflt | Some v \<Rightarrow> v)"

text \<open>
  Exceptions, each carrying the text \<open>str(e)\<close>. \<open>OtherError\<close> is any \<open>Exception\<close>
  that is neither a \<open>ValueError\<close> nor a \<open>TypeError\<close>.
\<close>

datatype exn = ValueError string | TypeError string | OtherError string

fun str_exn :: "exn \<Rightarrow> string" where
  "str_exn (ValueError m) = m"
| "str_exn (TypeError m) = m"
| "str_exn (OtherError m) = m"

subsection \<open>String methods\<close>

text \<open>A text between single quotes, as the messages of CPython quote type names and keys.\<close>

definition quoted :: "string \<Rightarrow> string" where
  "quoted s = [CHR 0x27] @ s @ [CHR 0x27]"

definition startswith :: "string \<Rightarrow> string \<Rightarrow> bool" where
  "startswith s p = (take (length p) s = p)"

text \<open>\<open>sub in s\<close> for two strings.\<close>

fun contains :: "string \<Rightarrow> string \<Rightarrow> bool" where
  "contains [] sub = (sub = [])"
| "contains (c # cs) sub = (startswith (c # cs) sub \<or> contains cs sub)"

text \<open>\<open>sep.join(xs)\<close>.\<close>

fun str_join :: "string \<Rightarrow> string list \<Rightarrow> string" where
  "str_join sep [] = []"
| "str_join sep [x] = x"
| "str_join sep (x # y # ys) = x @ sep @ str_join sep (y # ys)"

text \<open>\<open>s.split(c)\<close> for a one-character separator: never the empty list.\<close>

fun split_chr :: "char \<Rightarrow> string \<Rightarrow> string list" where
  "split_chr c [] = [[]]"
| "split_chr c (x # xs) =
     (if x = c then [] # split_chr c xs
      else (case split_chr c xs of
              [] \<Rightarrow> [[x]]
            | l # ls \<Rightarrow> (x # l) # ls))"

text \<open>\<open>str.isspace\<close> on one code point below U+0100, and \<open>s.strip()\<close>.\<close>

definition is_space :: "char \<Rightarrow> bool" where
  "is_space c = (let n = (of_char c :: nat) in
     (9 \<le> n \<and> n \<le> 13) \<or> (28 \<le> n \<and> n \<le> 32) \<or> n = 133 \<or> n = 160)"

definition py_strip :: "string \<Rightarrow> string" where
  "py_strip s = rev (dropWhile is_space (rev (dropWhile is_space s)))"

text \<open>\<open>s.rstrip(c)\<close> for a one-character set.\<close>

definition rstrip_chr :: "char \<Rightarrow> string \<Rightarrow> string" where
  "rstrip_chr c s = rev (dropWhile (\<lambda>x. x = c) (rev s))"

text \<open>
  \<open>s.replace(old, new)\<close>: the occurrences of \<open>old\<close> are found left to right, without
  overlap, in one pass. For an empty \<open>old\<close> Python puts \<open>new\<close> around every character.
\<close>

function replace_from :: "string \<Rightarrow> string \<Rightarrow> string \<Rightarrow> string" where
  "replace_from old new [] = []"
| "replace_from old new (c # cs) =
     (if old \<noteq> [] \<and> startswith (c # cs) old
      then new @ replace_from old new (drop (length old) (c # cs))
      else c # replace_from old new cs)"
  by pat_completeness auto
termination
  by (relation "measure (\<lambda>(old, new, s). length s)") (auto simp: neq_Nil_conv)

definition str_replace :: "string \<Rightarrow> string \<Rightarrow> string \<Rightarrow> string" where
  "str_replace old new s =
     (if old = [] then new @ concat (map (\<lambda>c. c # new) s) else replace_from old new s)"

text \<open>\<open>xs[a:b]\<close> for \<open>0 \<le> a\<close> and \<open>0 \<le> b\<close>.\<close>

definition slice :: "nat \<Rightarrow> nat \<Rightarrow> 'a list \<Rightarrow> 'a list" where
  "slice a b xs = take (b - a) (drop a xs)"

section \<open>config.py\<close>

text \<open>
  \<^verbatim>\<open>
  CACHE_ENABLED = os.getenv("CACHE_ENABLED", "true").lower() == "true"
  CACHE_TTL = int(os.getenv("CACHE_TTL", "3600"))
  \<close>
\<close>

record config =
  CACHE_ENABLED :: bool
  CACHE_TTL :: int

section \<open>github_client.py\<close>

subsection \<open>The two patterns of \<open>parse_repo_url\<close>\<close>

text \<open>
  Python's \<open>re\<close> is a backtracking matcher. Of its syntax the two patterns use: literal
  text, the greedy \<open>[^c]+\<close>, the lazy \<open>[^c]+?\<close>, the greedy optional \<open>(?:r)?\<close>,
  capturing groups that are not nested, concatenation and \<open>$\<close>. \<open>re_match r s\<close> lists
  every way \<open>r\<close> matches at the start of \<open>s\<close>, in the order the matcher tries them, as the
  texts of the groups and the rest of the input; the matcher takes the first.
\<close>

datatype regex =
    Lit string
  | NotChrPlus char
  | NotChrPlusLazy char
  | Opt regex
  | Cat regex regex
  | Grp regex
  | Eos

fun re_match :: "regex \<Rightarrow> string \<Rightarrow> (string list \<times> string) list" where
  "re_match (Lit l) s = (if startswith s l then [([], drop (length l) s)] else [])"
| "re_match (NotChrPlus c) s =
     map (\<lambda>k. ([], drop k s)) (rev [1..<Suc (length (takeWhile (\<lambda>x. x \<noteq> c) s))])"
| "re_match (NotChrPlusLazy c) s =
     map (\<lambda>k. ([], drop k s)) [1..<Suc (length (takeWhile (\<lambda>x. x \<noteq> c) s))]"
| "re_match (Opt r) s = re_match r s @ [([], s)]"
| "re_match (Cat r1 r2) s =
     concat (map (\<lambda>(g1, s1). map (\<lambda>(g2, s2). (g1 @ g2, s2)) (re_match r2 s1)) (re_match r1 s))"
| "re_match (Grp r) s =
     map (\<lambda>(g, s'). (take (length s - length s') s # g, s')) (re_match r s)"
| "re_match Eos s = (if s = [] \<or> s = nl then [([], s)] else [])"

text \<open>\<open>re.search(pattern, s)\<close>: the first match at the leftmost position that has one.\<close>

fun re_search :: "regex \<Rightarrow> string \<Rightarrow> string list option" where
  "re_search r [] = (case re_match r [] of [] \<Rightarrow> None | (g, _) # _ \<Rightarrow> Some g)"
| "re_search r (c # cs) =
     (case re_match r (c # cs) of [] \<Rightarrow> re_search r cs | (g, _) # _ \<Rightarrow> Some g)"

text \<open>
  \<^verbatim>\<open>
  patterns = [
      r"github\.com/([^/]+)/([^/]+?)(?:\.git)?/?$",
      r"github\.com/([^/]+)/([^/]+)",
  ]
  \<close>
\<close>

definition strict_pattern :: regex where
  "strict_pattern =
     Cat (Lit ''github.com/'') (Cat (Grp (NotChrPlus CHR ''/'')) (Cat (Lit ''/'')
       (Cat (Grp (NotChrPlusLazy CHR ''/'')) (Cat (Opt (Lit ''.git'')) (Cat (Opt (Lit ''/'')) Eos)))))"

definition loose_pattern :: regex where
  "loose_pattern =
     Cat (Lit ''github.com/'') (Cat (Grp (NotChrPlus CHR ''/'')) (Cat (Lit ''/'')
       (Grp (NotChrPlus CHR ''/''))))"

definition patterns :: "regex list" where
  "patterns = [strict_pattern, loose_pattern]"

subsection \<open>\<open>GitHubClient.parse_repo_url\<close>\<close>

text \<open>
  \<^verbatim>\<open>
  for pattern in patterns:
      match = re.search(pattern, repo_url)
      if match:
          owner, repo = match.groups()
          repo = repo.rstrip('/').replace('.git', '')
          return owner, repo
  raise ValueError(
      f"Invalid GitHub repository URL: {repo_url}. "
      "Expected format: https://github.com/owner/repo")
  \<close>
  Both patterns have two groups, so the unpacking of \<open>match.groups()\<close> cannot fail; the
  model keeps the branch.
\<close>

definition clean_repo :: "string \<Rightarrow> string" where
  "clean_repo repo = str_replace ''.git'' [] (rstrip_chr CHR ''/'' repo)"

fun try_patterns :: "regex list \<Rightarrow> string \<Rightarrow> exn + (string \<times> string)" where
  "try_patterns [] repo_url =
     Inl (ValueError (''Invalid GitHub repository URL: '' @ repo_url @ ''. '' @
                      ''Expected format: https://github.com/owner/repo''))"
| "try_patterns (pattern # rest) repo_url =
     (case re_search pattern repo_url of
        None \<Rightarrow> try_patterns rest repo_url
      | Some [owner, repo] \<Rightarrow> Inr (owner, clean_repo repo)
      | Some _ \<Rightarrow> Inl (ValueError ''not enough values to unpack''))"

definition parse_repo_url :: "string \<Rightarrow> exn + (string \<times> string)" where
  "parse_repo_url repo_url = try_patterns patterns repo_url"




subsection \<open>The GitHub API as the client sees it\<close>

text \<open>
  The three statements \<open>response = self.session.get(url, timeout=10)\<close>,
  \<open>response.raise_for_status()\<close> and \<open>return response.json()\<close> end in one of three ways:
  the decoded payload, the \<open>requests.exceptions.HTTPError\<close> of \<open>raise_for_status\<close> (with
  \<open>response.status_code\<close> and \<open>str(e)\<close>), or another
  \<open>requests.exceptions.RequestException\<close> (timeout, connection failure, and since
  requests 2.27 a body that is not JSON; with \<open>str(e)\<close>).
\<close>

datatype 'a http_outcome =
    Payload 'a
  | HTTPError nat string
  | RequestException string

text \<open>
  The payloads have the shape the GitHub REST API documents. A field read with
  \<open>.get(key, default)\<close> is optional; \<open>None\<close> for \<open>gh_body\<close> is an absent or a null body.
  The \<open>user\<close> of a comment is absent, \<open>null\<close> (the API documents it as nullable) or
  an object: the three are told apart, because the code treats them differently.
\<close>

record gh_label =
  label_name :: string

record gh_user =
  login :: "string option"

datatype gh_user_field = UserAbsent | UserNull | User gh_user

record gh_comment =
  gh_comment_user :: gh_user_field
  gh_comment_body :: "string option"
  gh_comment_created_at :: "string option"

record gh_issue =
  gh_title :: "string option"
  gh_body :: "string option"
  gh_state :: "string option"
  gh_labels :: "gh_label list option"
  gh_comments :: "int option"
  gh_created_at :: "string option"
  gh_html_url :: "string option"

definition BASE_URL :: string where
  "BASE_URL = ''https://api.github.com''"

subsection \<open>\<open>GitHubClient.fetch_issue\<close>\<close>

text \<open>
  \<^verbatim>\<open>
  url = f"{self.BASE_URL}/repos/{owner}/{repo}/issues/{issue_number}"
  try:
      response = self.session.get(url, timeout=10)
      response.raise_for_status()
      return response.json()
  except requests.exceptions.HTTPError as e:
      if response.status_code == 404:
          raise ValueError(
              f"Issue #{issue_number} not found in {owner}/{repo}. "
              "Please check the repository and issue number.")
      elif response.status_code == 403:
          raise ValueError(
              "GitHub API rate limit exceeded. "
              "Please add a GITHUB_TOKEN to your .env file for higher limits.")
      else:
          raise ValueError(f"GitHub API error: {e}")
  except requests.exceptions.RequestException as e:
      raise ValueError(f"Failed to connect to GitHub API: {e}")
  \<close>
\<close>

definition issue_url :: "string \<Rightarrow> string \<Rightarrow> int \<Rightarrow> string" where
  "issue_url owner repo issue_number =
     BASE_URL @ ''/repos/'' @ owner @ ''/'' @ repo @ ''/issues/'' @ str_int issue_number"

definition fetch_issue ::
  "(string \<Rightarrow> gh_issue http_outcome) \<Rightarrow> string \<Rightarrow> string \<Rightarrow> int \<Rightarrow> exn + gh_issue" where
  "fetch_issue session_get owner repo issue_number =
     (let url = issue_url owner repo issue_number
      in case session_get url of
           Payload issue \<Rightarrow> Inr issue
         | HTTPError status_code e \<Rightarrow>
             (if status_code = 404 then
                Inl (ValueError (''Issue #'' @ str_int issue_number @ '' not found in '' @ owner @
                                 ''/'' @ repo @ ''. '' @
                                 ''Please check the repository and issue number.''))
              else if status_code = 403 then
                Inl (ValueError (''GitHub API rate limit exceeded. '' @
                                 ''Please add a GITHUB_TOKEN to your .env file for higher limits.''))
              else Inl (ValueError (''GitHub API error: '' @ e)))
         | RequestException e \<Rightarrow> Inl (ValueError (''Failed to connect to GitHub API: '' @ e)))"

subsection \<open>\<open>GitHubClient.fetch_comments\<close>\<close>

text \<open>
  \<^verbatim>\<open>
  url = f"{self.BASE_URL}/repos/{owner}/{repo}/issues/{issue_number}/comments"
  try:
      response = self.session.get(url, timeout=10)
      response.raise_for_status()
      return response.json()
  except requests.exceptions.RequestException:
      return []
  \<close>
  \<open>HTTPError\<close> is a subclass of \<open>RequestException\<close>.
\<close>

definition comments_url :: "string \<Rightarrow> string \<Rightarrow> int \<Rightarrow> string" where
  "comments_url owner repo issue_number =
     BASE_URL @ ''/repos/'' @ owner @ ''/'' @ repo @ ''/issues/'' @ str_int issue_number @
     ''/comments''"

definition fetch_comments ::
  "(string \<Rightarrow> gh_comment list http_outcome) \<Rightarrow> string \<Rightarrow> string \<Rightarrow> int \<Rightarrow> gh_comment list" where
  "fetch_comments session_get owner repo issue_number =
     (let url = comments_url owner repo issue_number
      in case session_get url of
           Payload comments \<Rightarrow> comments
         | HTTPError status_code e \<Rightarrow> []
         | RequestException e \<Rightarrow> [])"

subsection \<open>\<open>GitHubClient.get_issue_data\<close>\<close>

text \<open>
  The dictionary \<open>get_issue_data\<close> builds, which \<open>create_prompt\<close> and the endpoint read
  with \<open>.get\<close>: every key is optional for the readers, and \<open>get_issue_data\<close> sets them all.
\<close>

record comment =
  c_author :: "string option"
  c_body :: "string option"
  c_created_at :: "string option"

record issue_data =
  issue_title :: "string option"
  issue_body :: "string option"
  issue_state :: "string option"
  issue_labels :: "string list option"
  issue_comments_count :: "int option"
  issue_comments :: "comment list option"
  issue_created_at :: "string option"
  issue_html_url :: "string option"

text \<open>
  \<^verbatim>\<open>
  owner, repo = self.parse_repo_url(repo_url)
  issue = self.fetch_issue(owner, repo, issue_number)
  comments = self.fetch_comments(owner, repo, issue_number)
  return {
      "title": issue.get("title", ""),
      "body": issue.get("body") or "",
      "state": issue.get("state", ""),
      "labels": [label["name"] for label in issue.get("labels", [])],
      "comments_count": issue.get("comments", 0),
      "comments": [
          {
              "author": comment.get("user", {}).get("login", "unknown"),
              "body": comment.get("body", ""),
              "created_at": comment.get("created_at", "")
          }
          for comment in comments
      ],
      "created_at": issue.get("created_at", ""),
      "html_url": issue.get("html_url", "")
  }
  \<close>
\<close>

text \<open>
  \<open>comment.get("user", {}).get("login", "unknown")\<close>: an absent \<open>user\<close> gives the
  empty dictionary and so \<open>unknown\<close>; a \<open>null\<close> user gives \<open>None\<close>, and \<open>None.get\<close>
  raises \<open>AttributeError\<close>.
\<close>

definition comment_author :: "gh_comment \<Rightarrow> exn + string" where
  "comment_author c =
     (case gh_comment_user c of
        UserAbsent \<Rightarrow> Inr ''unknown''
      | UserNull \<Rightarrow>
          Inl (OtherError (quoted ''NoneType'' @ '' object has no attribute '' @ quoted ''get''))
      | User u \<Rightarrow> Inr (get_or ''unknown'' (login u)))"

definition normalize_comment :: "gh_comment \<Rightarrow> exn + comment" where
  "normalize_comment c =
     (case comment_author c of
        Inl e \<Rightarrow> Inl e
      | Inr a \<Rightarrow>
          Inr \<lparr> c_author = Some a,
                c_body = Some (get_or [] (gh_comment_body c)),
                c_created_at = Some (get_or [] (gh_comment_created_at c)) \<rparr>)"

text \<open>The list comprehension over the comments: the first exception ends it.\<close>

fun normalize_comments :: "gh_comment list \<Rightarrow> exn + comment list" where
  "normalize_comments [] = Inr []"
| "normalize_comments (c # cs) =
     (case normalize_comment c of
        Inl e \<Rightarrow> Inl e
      | Inr c' \<Rightarrow>
          (case normalize_comments cs of
             Inl e \<Rightarrow> Inl e
           | Inr cs' \<Rightarrow> Inr (c' # cs')))"

definition get_issue_data ::
  "(string \<Rightarrow> gh_issue http_outcome) \<Rightarrow> (string \<Rightarrow> gh_comment list http_outcome) \<Rightarrow>
   string \<Rightarrow> int \<Rightarrow> exn + issue_data" where
  "get_issue_data issue_get comments_get repo_url issue_number =
     (case parse_repo_url repo_url of
        Inl e \<Rightarrow> Inl e
      | Inr (owner, repo) \<Rightarrow>
          (case fetch_issue issue_get owner repo issue_number of
             Inl e \<Rightarrow> Inl e
           | Inr issue \<Rightarrow>
               (let comments = fetch_comments comments_get owner repo issue_number
                in case normalize_comments comments of
                     Inl e \<Rightarrow> Inl e
                   | Inr normalized \<Rightarrow>
                       Inr \<lparr> issue_title = Some (get_or [] (gh_title issue)),
                             issue_body = Some (case gh_body issue of
                                                  None \<Rightarrow> []
                                                | Some b \<Rightarrow> if b = [] then [] else b),
                             issue_state = Some (get_or [] (gh_state issue)),
                             issue_labels = Some (map label_name (get_or [] (gh_labels issue))),
                             issue_comments_count = Some (get_or 0 (gh_comments issue)),
                             issue_comments = Some normalized,
                             issue_created_at = Some (get_or [] (gh_created_at issue)),
                             issue_html_url = Some (get_or [] (gh_html_url issue)) \<rparr>)))"

section \<open>llm_analyzer.py\<close>

subsection \<open>\<open>LLMAnalyzer.create_prompt\<close>\<close>

text \<open>
  The fixed text of the template before the line of the issue title, line by line, with
  the doubled braces of the f-string written as the single braces they produce.
\<close>

definition prompt_preamble :: "string list" where
  \<open>prompt_preamble =
    [''You are an expert GitHub issue analyst. Analyze the following GitHub issue and provide a structured JSON response.'',
     '''',
     ''**IMPORTANT**: You must respond with ONLY valid JSON in the exact format specified below. Do not include any markdown, explanations, or text outside the JSON object.'',
     '''',
     ''Required JSON Format:'',
     ''{'',
     ''  "summary": "A comprehensive, multi-sentence paragraph (approx 50-70 words) fully explaining the issue context, the problem, and the proposed solution.",'',
     ''  "type": "One of: bug, feature_request, documentation, question, or other",'',
     ''  "priority_score": "A number from 1-5 where 1=low, 2=minor, 3=moderate, 4=high, 5=critical. Include a full sentence justification.",'',
     ''  "suggested_labels": ["2-3 relevant labels"],'',
     ''  "potential_impact": "A detailed paragraph explaining the specific consequences for users, developers, and the business if this is not addressed."'',
     ''}'',
     '''',
     ''**Few-Shot Examples:**'',
     '''',
     ''Example 1 - Bug Report:'',
     ''Issue Title: "Application crashes when clicking submit button"'',
     ''Issue Body: "When I click the submit button on the login form, the app crashes immediately. This happens consistently on iOS 17."'',
     ''Analysis:'',
     ''{'',
     ''  "summary": "Login form submit button causes consistent app crashes on iOS 17",'',
     ''  "type": "bug",'',
     ''  "priority_score": "5 - Critical: Blocks core functionality (login) for all iOS 17 users",'',
     ''  "suggested_labels": ["bug", "crash", "ios", "login"],'',
     ''  "potential_impact": "Users cannot log in on iOS 17, completely blocking app access for this user segment"'',
     ''}'',
     '''',
     ''Example 2 - Feature Request:'',
     ''Issue Title: "Add dark mode support"'',
     ''Issue Body: "It would be great to have a dark mode option for better viewing at night."'',
     ''Analysis:'',
     ''{'',
     ''  "summary": "Request for dark mode theme option for improved nighttime viewing experience",'',
     ''  "type": "feature_request",'',
     ''  "priority_score": "2 - Low: Nice-to-have enhancement, not blocking any functionality",'',
     ''  "suggested_labels": ["enhancement", "ui", "dark-mode"],'',
     ''  "potential_impact": "Would improve user experience for users who prefer dark interfaces, but no current functionality is broken"'',
     ''}'',
     '''',
     ''Example 3 - Question:'',
     ''Issue Title: "How to configure SSL certificates?"'',
     ''Issue Body: "I'm trying to set up SSL but can't find documentation on where to place the certificates."'',
     ''Analysis:'',
     ''{'',
     ''  "summary": "User needs guidance on SSL certificate configuration and file placement",'',
     ''  "type": "question",'',
     ''  "priority_score": "3 - Moderate: Indicates documentation gap affecting user onboarding",'',
     ''  "suggested_labels": ["question", "documentation", "ssl"],'',
     ''  "potential_impact": "May indicate unclear documentation that could confuse other users during setup"'',
     ''}'',
     '''',
     ''---'',
     '''',
     ''Now analyze this issue:'',
     '''']\<close>

text \<open>
  \<^verbatim>\<open>
  body = issue_data.get("body", "")
  if len(body) > 4000:
      body = body[:4000] + "\n... (truncated for length)"
  \<close>
\<close>

definition truncate_body :: "string \<Rightarrow> string" where
  "truncate_body body =
     (if length body > 4000 then take 4000 body @ nl @ ''... (truncated for length)'' else body)"

text \<open>
  \<^verbatim>\<open>
  for i, comment in enumerate(comments_list, 1):
      comment_body = comment.get("body", "")
      if len(comment_body) > 500:
          comment_body = comment_body[:500] + "..."
      comments_text += f"\nComment {i} by {comment.get('author', 'unknown')}:\n{comment_body}\n"
  \<close>
\<close>

definition truncate_comment :: "string \<Rightarrow> string" where
  "truncate_comment comment_body =
     (if length comment_body > 500 then take 500 comment_body @ ''...'' else comment_body)"

definition comment_entry :: "nat \<Rightarrow> comment \<Rightarrow> string" where
  "comment_entry i c =
     (let comment_body = truncate_comment (get_or [] (c_body c))
      in nl @ ''Comment '' @ str_nat i @ '' by '' @ get_or ''unknown'' (c_author c) @ '':'' @ nl @
         comment_body @ nl)"

fun format_comments :: "nat \<Rightarrow> comment list \<Rightarrow> string \<Rightarrow> string" where
  "format_comments i [] comments_text = comments_text"
| "format_comments i (c # cs) comments_text =
     format_comments (Suc i) cs (comments_text @ comment_entry i c)"

text \<open>
  \<^verbatim>\<open>
  comments_text = ""
  if issue_data.get("comments"):
      comments_list = issue_data["comments"][:10]
      for ...
  else:
      comments_text = "No comments yet."
  \<close>
  An absent key and an empty list are both false.
\<close>

definition comments_section :: "issue_data \<Rightarrow> string" where
  "comments_section d =
     (case issue_comments d of
        None \<Rightarrow> ''No comments yet.''
      | Some cs \<Rightarrow>
          if cs = [] then ''No comments yet.''
          else format_comments 1 (take 10 cs) [])"

text \<open>
  \<^verbatim>\<open>
  **Issue Title:** {issue_data.get('title', 'No title')}

  **Issue Body:**
  {body if body else 'No description provided'}

  **Comments:**
  {comments_text}

  **Existing Labels:** {', '.join(issue_data.get('labels', [])) if issue_data.get('labels') else 'None'}

  Provide your analysis as valid JSON only:
  \<close>
\<close>

definition create_prompt :: "issue_data \<Rightarrow> string" where
  "create_prompt d =
     (let body = truncate_body (get_or [] (issue_body d));
          comments_text = comments_section d
      in str_join nl prompt_preamble @ nl @
         ''**Issue Title:** '' @ get_or ''No title'' (issue_title d) @ nl @
         nl @
         ''**Issue Body:**'' @ nl @
         (if body \<noteq> [] then body else ''No description provided'') @ nl @
         nl @
         ''**Comments:**'' @ nl @
         comments_text @ nl @
         nl @
         ''**Existing Labels:** '' @
         (case issue_labels d of
            None \<Rightarrow> ''None''
          | Some ls \<Rightarrow> if ls = [] then ''None'' else str_join '', '' ls) @ nl @
         nl @
         ''Provide your analysis as valid JSON only:'')"

subsection \<open>\<open>LLMAnalyzer.parse_response\<close>\<close>

text \<open>Sequencing of statements that may raise.\<close>

definition try_bind :: "exn + 'a \<Rightarrow> ('a \<Rightarrow> exn + 'b) \<Rightarrow> exn + 'b" where
  "try_bind m f = (case m of Inl e \<Rightarrow> Inl e | Inr x \<Rightarrow> f x)"

text \<open>
  \<^verbatim>\<open>
  lines = response_text.split('\n')
  start_idx = 0
  end_idx = len(lines)
  for i, line in enumerate(lines):
      if line.strip().startswith("```"):
          if start_idx == 0:
              start_idx = i + 1
          else:
              end_idx = i
              break
  response_text = '\n'.join(lines[start_idx:end_idx])
  \<close>
\<close>

fun fence_scan :: "nat \<Rightarrow> string list \<Rightarrow> nat \<Rightarrow> nat \<Rightarrow> nat \<times> nat" where
  "fence_scan i [] start_idx end_idx = (start_idx, end_idx)"
| "fence_scan i (line # rest) start_idx end_idx =
     (if startswith (py_strip line) ''```'' then
        (if start_idx = 0 then fence_scan (Suc i) rest (Suc i) end_idx
         else (start_idx, i))
      else fence_scan (Suc i) rest start_idx end_idx)"

definition unfence :: "string \<Rightarrow> string" where
  "unfence response_text =
     (let lines = split_chr CHR 0x0A response_text;
          (start_idx, end_idx) = fence_scan 0 lines 0 (length lines)
      in str_join nl (slice start_idx end_idx lines))"

text \<open>A fence line: \<open>line.strip().startswith("```")\<close>.\<close>

definition is_fence :: "string \<Rightarrow> bool" where
  "is_fence line = startswith (py_strip line) ''```''"

text \<open>
  The operators of the validation on a value of any JSON type, with the \<open>TypeError\<close> of
  CPython where the type does not support the operator: \<open>field in data\<close>, \<open>data[key]\<close>,
  \<open>data[key] = v\<close>, \<open>str(v)\<close>. For a value that is not a string, \<open>str(v)\<close> is \<open>repr(v)\<close>,
  which is Python's own and a parameter here.
\<close>

fun type_name :: "json \<Rightarrow> string" where
  "type_name JNull = ''NoneType''"
| "type_name (JBool b) = ''bool''"
| "type_name (JInt i) = ''int''"
| "type_name (JFloat x) = ''float''"
| "type_name (JStr s) = ''str''"
| "type_name (JArr xs) = ''list''"
| "type_name (JObj kvs) = ''dict''"

fun py_in :: "string \<Rightarrow> json \<Rightarrow> exn + bool" where
  "py_in field (JObj kvs) = Inr (field \<in> set (map fst kvs))"
| "py_in field (JArr xs) = Inr (JStr field \<in> set xs)"
| "py_in field (JStr s) = Inr (contains s field)"
| "py_in field v =
     Inl (TypeError (''argument of type '' @ quoted (type_name v) @ '' is not iterable''))"

fun py_getitem :: "json \<Rightarrow> string \<Rightarrow> exn + json" where
  "py_getitem (JObj kvs) key =
     (case map_of kvs key of
        Some v \<Rightarrow> Inr v
      | None \<Rightarrow> Inl (OtherError (quoted key)))"
| "py_getitem (JArr xs) key =
     Inl (TypeError ''list indices must be integers or slices, not str'')"
| "py_getitem (JStr s) key =
     Inl (TypeError (''string indices must be integers, not '' @ quoted ''str''))"
| "py_getitem v key =
     Inl (TypeError (quoted (type_name v) @ '' object is not subscriptable''))"

fun py_setitem :: "json \<Rightarrow> string \<Rightarrow> json \<Rightarrow> exn + json" where
  "py_setitem (JObj kvs) key v = Inr (JObj (dict_set key v kvs))"
| "py_setitem (JArr xs) key v =
     Inl (TypeError ''list indices must be integers or slices, not str'')"
| "py_setitem data key v =
     Inl (TypeError (quoted (type_name data) @ '' object does not support item assignment''))"

fun is_list :: "json \<Rightarrow> bool" where
  "is_list (JArr xs) = True"
| "is_list v = False"

fun py_str :: "(json \<Rightarrow> string) \<Rightarrow> json \<Rightarrow> string" where
  "py_str repr (JStr s) = s"
| "py_str repr v = repr v"

text \<open>
  \<^verbatim>\<open>
  required_fields = ["summary", "type", "priority_score", "suggested_labels", "potential_impact"]
  for field in required_fields:
      if field not in data:
          raise ValueError(f"Missing required field: {field}")
  \<close>
\<close>

definition required_fields :: "string list" where
  "required_fields =
     [''summary'', ''type'', ''priority_score'', ''suggested_labels'', ''potential_impact'']"

fun check_required :: "string list \<Rightarrow> json \<Rightarrow> exn + unit" where
  "check_required [] data = Inr ()"
| "check_required (field # rest) data =
     try_bind (py_in field data) (\<lambda>present.
       if \<not> present then Inl (ValueError (''Missing required field: '' @ field))
       else check_required rest data)"

text \<open>
  \<^verbatim>\<open>
  valid_types = ["bug", "feature_request", "documentation", "question", "other"]
  if data["type"] not in valid_types:
      data["type"] = "other"
  if not isinstance(data["suggested_labels"], list):
      data["suggested_labels"] = [str(data["suggested_labels"])]
  return data
  \<close>
\<close>

definition valid_types :: "string list" where
  "valid_types = [''bug'', ''feature_request'', ''documentation'', ''question'', ''other'']"

definition validate_data :: "(json \<Rightarrow> string) \<Rightarrow> json \<Rightarrow> exn + json" where
  "validate_data repr data =
     try_bind (check_required required_fields data) (\<lambda>_.
     try_bind (py_getitem data ''type'') (\<lambda>t.
     try_bind (if t \<notin> set (map JStr valid_types)
               then py_setitem data ''type'' (JStr ''other'') else Inr data) (\<lambda>data.
     try_bind (py_getitem data ''suggested_labels'') (\<lambda>labels.
       if \<not> is_list labels
       then try_bind (py_getitem data ''suggested_labels'') (\<lambda>l.
              py_setitem data ''suggested_labels'' (JArr [JStr (py_str repr l)]))
       else Inr data))))"

text \<open>
  \<^verbatim>\<open>
  response_text = response_text.strip()
  if response_text.startswith("```"):
      ...
  try:
      data = json.loads(response_text)
      ...
      return data
  except json.JSONDecodeError as e:
      raise ValueError(f"Failed to parse LLM response as JSON: {e}\nResponse: {response_text[:200]}")
  \<close>
  \<open>json.loads\<close> is Python's own and a parameter: it gives the value, or the text of its
  \<open>JSONDecodeError\<close>. The errors of the validation are not \<open>JSONDecodeError\<close>s and
  pass the handler.
\<close>

definition parse_json ::
  "(string \<Rightarrow> string + json) \<Rightarrow> (json \<Rightarrow> string) \<Rightarrow> string \<Rightarrow> exn + json" where
  "parse_json json_loads repr response_text =
     (case json_loads response_text of
        Inl e \<Rightarrow>
          Inl (ValueError (''Failed to parse LLM response as JSON: '' @ e @ nl @
                           ''Response: '' @ take 200 response_text))
      | Inr data \<Rightarrow> validate_data repr data)"

definition parse_response ::
  "(string \<Rightarrow> string + json) \<Rightarrow> (json \<Rightarrow> string) \<Rightarrow> string \<Rightarrow> exn + json" where
  "parse_response json_loads repr response_text =
     (let response_text = py_strip response_text;
          response_text = (if startswith response_text ''```'' then unfence response_text
                           else response_text)
      in parse_json json_loads repr response_text)"

subsection \<open>\<open>LLMAnalyzer.analyze_issue\<close>\<close>

text \<open>
  \<open>generate attempt prompt\<close> is the call \<open>self.model.generate_content(prompt, ...)\<close>
  followed by \<open>response.text\<close> in the given pass of the loop: the text, or the exception
  one of the two raised.
  \<^verbatim>\<open>
  max_retries = 2
  last_error = None
  for attempt in range(max_retries):
      try:
          response = self.model.generate_content(...)
          response_text = response.text
          analysis = self.parse_response(response_text)
          return analysis
      except Exception as e:
          last_error = e
          if attempt < max_retries - 1:
              continue
  raise ValueError(f"LLM analysis failed after {max_retries} attempts: {last_error}")
  \<close>
\<close>

definition attempt_once ::
  "(nat \<Rightarrow> string \<Rightarrow> exn + string) \<Rightarrow> (string \<Rightarrow> string + json) \<Rightarrow> (json \<Rightarrow> string) \<Rightarrow>
   string \<Rightarrow> nat \<Rightarrow> exn + json" where
  "attempt_once generate json_loads repr prompt attempt =
     try_bind (generate attempt prompt) (parse_response json_loads repr)"

definition max_retries :: nat where
  "max_retries = 2"

fun retry_loop ::
  "(nat \<Rightarrow> string \<Rightarrow> exn + string) \<Rightarrow> (string \<Rightarrow> string + json) \<Rightarrow> (json \<Rightarrow> string) \<Rightarrow>
   string \<Rightarrow> nat list \<Rightarrow> exn option \<Rightarrow> exn + json" where
  "retry_loop generate json_loads repr prompt [] last_error =
     Inl (ValueError (''LLM analysis failed after '' @ str_nat max_retries @ '' attempts: '' @
                      (case last_error of None \<Rightarrow> ''None'' | Some e \<Rightarrow> str_exn e)))"
| "retry_loop generate json_loads repr prompt (attempt # rest) last_error =
     (case attempt_once generate json_loads repr prompt attempt of
        Inr analysis \<Rightarrow> Inr analysis
      | Inl e \<Rightarrow> retry_loop generate json_loads repr prompt rest (Some e))"

text \<open>
  \<^verbatim>\<open>
  try:
      prompt = self.create_prompt(issue_data)
      ...
  except Exception as e:
      return {
          "summary": f"Analysis unavailable: {str(e)}",
          "type": "other",
          "priority_score": "3 - Unable to determine automatically",
          "suggested_labels": ["needs-triage"],
          "potential_impact": "Unable to analyze due to LLM error"
      }
  \<close>
\<close>

definition fallback :: "exn \<Rightarrow> json" where
  "fallback e =
     JObj [(''summary'', JStr (''Analysis unavailable: '' @ str_exn e)),
           (''type'', JStr ''other''),
           (''priority_score'', JStr ''3 - Unable to determine automatically''),
           (''suggested_labels'', JArr [JStr ''needs-triage'']),
           (''potential_impact'', JStr ''Unable to analyze due to LLM error'')]"

definition analyze_issue ::
  "(nat \<Rightarrow> string \<Rightarrow> exn + string) \<Rightarrow> (string \<Rightarrow> string + json) \<Rightarrow> (json \<Rightarrow> string) \<Rightarrow>
   issue_data \<Rightarrow> json" where
  "analyze_issue generate json_loads repr issue_data =
     (case retry_loop generate json_loads repr (create_prompt issue_data) [0..<max_retries] None of
        Inr analysis \<Rightarrow> analysis
      | Inl e \<Rightarrow> fallback e)"

text \<open>
  The schema of an analysis as the data model of the specification words it: the five
  fields are present, \<open>summary\<close>, \<open>priority_score\<close> and \<open>potential_impact\<close> are
  strings, \<open>type\<close> is one of the five enumerated values, and \<open>suggested_labels\<close> is a
  sequence of strings.
\<close>

fun is_str :: "json \<Rightarrow> bool" where
  "is_str (JStr s) = True"
| "is_str v = False"

definition schema_conforming :: "json \<Rightarrow> bool" where
  "schema_conforming a =
     (case a of
        JObj d \<Rightarrow>
          (case (map_of d ''summary'', map_of d ''type'', map_of d ''priority_score'',
                 map_of d ''suggested_labels'', map_of d ''potential_impact'') of
             (Some (JStr s), Some (JStr t), Some (JStr p), Some (JArr ls), Some (JStr i)) \<Rightarrow>
               t \<in> set valid_types \<and> list_all is_str ls
           | _ \<Rightarrow> False)
      | _ \<Rightarrow> False)"

section \<open>app.py\<close>

subsection \<open>The cache\<close>

text \<open>
  \<^verbatim>\<open>
  cache: Dict[str, tuple] = {}  # {cache_key: (data, timestamp)}

  def get_cache_key(repo_url: str, issue_number: int) -> str:
      return f"{repo_url}::{issue_number}"
  \<close>
  \<open>time.time()\<close> is a number of seconds; the model takes it as a real number, and each
  function that reads the clock takes the value it reads as its argument \<open>now\<close>.
\<close>

type_synonym 'd cache = "string \<rightharpoonup> ('d \<times> real)"

definition get_cache_key :: "string \<Rightarrow> int \<Rightarrow> string" where
  "get_cache_key repo_url issue_number = repo_url @ ''::'' @ str_int issue_number"

text \<open>
  \<^verbatim>\<open>
  def get_from_cache(cache_key: str) -> Optional[Dict]:
      if not Config.CACHE_ENABLED:
          return None
      if cache_key in cache:
          data, timestamp = cache[cache_key]
          if time.time() - timestamp < Config.CACHE_TTL:
              return data
          else:
              del cache[cache_key]
      return None
  \<close>
  The result is the value returned and the cache after the call.
\<close>

definition get_from_cache ::
  "config \<Rightarrow> real \<Rightarrow> string \<Rightarrow> 'd cache \<Rightarrow> 'd option \<times> 'd cache" where
  "get_from_cache cfg now cache_key cache =
     (if \<not> CACHE_ENABLED cfg then (None, cache)
      else (case cache cache_key of
              Some (data, timestamp) \<Rightarrow>
                if now - timestamp < real_of_int (CACHE_TTL cfg) then (Some data, cache)
                else (None, cache(cache_key := None))
            | None \<Rightarrow> (None, cache)))"

text \<open>
  \<^verbatim>\<open>
  def set_cache(cache_key: str, data: Dict):
      if Config.CACHE_ENABLED:
          cache[cache_key] = (data, time.time())
  \<close>
\<close>

definition set_cache :: "config \<Rightarrow> real \<Rightarrow> string \<Rightarrow> 'd \<Rightarrow> 'd cache \<Rightarrow> 'd cache" where
  "set_cache cfg now cache_key data cache =
     (if CACHE_ENABLED cfg then cache(cache_key \<mapsto> (data, now)) else cache)"

subsection \<open>The response model\<close>

text \<open>
  \<^verbatim>\<open>
  class AnalysisResponse(BaseModel):
      summary: str
      type: str
      priority_score: str
      suggested_labels: list[str]
      potential_impact: str
      metadata: Dict = Field(default_factory=dict)
  \<close>
  \<open>AnalysisResponse(**d)\<close> reads the six keys and ignores any other. What pydantic
  accepts for a \<open>str\<close> and for a \<open>list[str]\<close> field, and the text of its
  \<open>ValidationError\<close>, depend on its version and are parameters. A \<open>ValidationError\<close>
  is a \<open>ValueError\<close>.
\<close>

record analysis_response =
  r_summary :: string
  r_type :: string
  r_priority_score :: string
  r_suggested_labels :: "string list"
  r_potential_impact :: string
  r_metadata :: pydict

record pydantic =
  as_str :: "json \<Rightarrow> string option"
  as_str_list :: "json \<Rightarrow> string list option"
  validation_error :: "pydict \<Rightarrow> string"

definition as_metadata :: "json option \<Rightarrow> pydict option" where
  "as_metadata v =
     (case v of
        None \<Rightarrow> Some []
      | Some (JObj kvs) \<Rightarrow> Some kvs
      | Some _ \<Rightarrow> None)"

definition AnalysisResponse :: "pydantic \<Rightarrow> pydict \<Rightarrow> exn + analysis_response" where
  "AnalysisResponse pyd d =
     (case (Option.bind (map_of d ''summary'') (as_str pyd),
            Option.bind (map_of d ''type'') (as_str pyd),
            Option.bind (map_of d ''priority_score'') (as_str pyd),
            Option.bind (map_of d ''suggested_labels'') (as_str_list pyd),
            Option.bind (map_of d ''potential_impact'') (as_str pyd),
            as_metadata (map_of d ''metadata'')) of
        (Some s, Some t, Some p, Some l, Some i, Some m) \<Rightarrow>
          Inr \<lparr> r_summary = s, r_type = t, r_priority_score = p, r_suggested_labels = l,
                r_potential_impact = i, r_metadata = m \<rparr>
      | _ \<Rightarrow> Inl (ValueError (validation_error pyd d)))"

subsection \<open>The endpoint \<open>POST /api/analyze\<close>\<close>

text \<open>
  What the endpoint is given besides the request: the Python library functions the
  analyzer calls, and the outside world during this one request, which is the two GitHub
  endpoints, the language model, and the clock when \<open>get_from_cache\<close> and when
  \<open>set_cache\<close> read it.
\<close>

record python =
  json_loads :: "string \<Rightarrow> string + json"
  py_repr :: "json \<Rightarrow> string"
  py_pydantic :: pydantic

record world =
  issue_get :: "string \<Rightarrow> gh_issue http_outcome"
  comments_get :: "string \<Rightarrow> gh_comment list http_outcome"
  generate_content :: "nat \<Rightarrow> string \<Rightarrow> exn + string"
  time_lookup :: real
  time_store :: real

record request =
  req_repo_url :: string
  req_issue_number :: int

text \<open>
  The state of the process: the module-level \<open>cache\<close>, and a record of each time the
  endpoint has called \<open>github_client.get_issue_data\<close> (the Retriever) or
  \<open>llm_analyzer.analyze_issue\<close> (the Engine).
\<close>

datatype component = Retriever | Engine

record app_state =
  cache :: "pydict cache"
  invocations :: "component list"

datatype http_response = Response analysis_response | HTTPException nat string

text \<open>
  \<^verbatim>\<open>
  except ValueError as e:
      raise HTTPException(status_code=400, detail=str(e))
  except Exception as e:
      raise HTTPException(status_code=500, detail=f"Internal server error: {str(e)}")
  \<close>
\<close>

fun http_error :: "exn \<Rightarrow> http_response" where
  "http_error (ValueError m) = HTTPException 400 m"
| "http_error e = HTTPException 500 (''Internal server error: '' @ str_exn e)"

text \<open>\<open>return AnalysisResponse(**data)\<close> inside the \<open>try\<close>.\<close>

definition respond :: "pydantic \<Rightarrow> pydict \<Rightarrow> http_response" where
  "respond pyd data =
     (case AnalysisResponse pyd data of
        Inl e \<Rightarrow> http_error e
      | Inr r \<Rightarrow> Response r)"

text \<open>
  \<^verbatim>\<open>
  response_data = {
      **analysis,
      "metadata": {
          "issue_url": issue_data.get("html_url", ""),
          "issue_state": issue_data.get("state", ""),
          "comments_count": issue_data.get("comments_count", 0),
          "created_at": issue_data.get("created_at", ""),
          "cached": False
      }
  }
  \<close>
  \<open>**analysis\<close> needs a mapping.
\<close>

definition metadata_of :: "issue_data \<Rightarrow> json" where
  "metadata_of issue_data =
     JObj [(''issue_url'', JStr (get_or [] (issue_html_url issue_data))),
           (''issue_state'', JStr (get_or [] (issue_state issue_data))),
           (''comments_count'', JInt (get_or 0 (issue_comments_count issue_data))),
           (''created_at'', JStr (get_or [] (issue_created_at issue_data))),
           (''cached'', JBool False)]"

fun with_metadata :: "json \<Rightarrow> json \<Rightarrow> exn + pydict" where
  "with_metadata (JObj kvs) m = Inr (dict_set ''metadata'' m kvs)"
| "with_metadata analysis m =
     Inl (TypeError (quoted (type_name analysis) @ '' object is not a mapping''))"

text \<open>
  \<^verbatim>\<open>
  issue_data = github_client.get_issue_data(repo_url=request.repo_url,
                                            issue_number=request.issue_number)
  analysis = llm_analyzer.analyze_issue(issue_data)
  response_data = {...}
  set_cache(cache_key, response_data)
  return AnalysisResponse(**response_data)
  \<close>
\<close>

definition analyze_fresh ::
  "config \<Rightarrow> python \<Rightarrow> world \<Rightarrow> request \<Rightarrow> string \<Rightarrow> app_state \<Rightarrow> http_response \<times> app_state" where
  "analyze_fresh cfg py w request cache_key st =
     (let st = st\<lparr>invocations := invocations st @ [Retriever]\<rparr>
      in case get_issue_data (issue_get w) (comments_get w)
                (req_repo_url request) (req_issue_number request) of
           Inl e \<Rightarrow> (http_error e, st)
         | Inr issue_data \<Rightarrow>
             (let st = st\<lparr>invocations := invocations st @ [Engine]\<rparr>;
                  analysis = analyze_issue (generate_content w) (json_loads py) (py_repr py)
                               issue_data
              in case with_metadata analysis (metadata_of issue_data) of
                   Inl e \<Rightarrow> (http_error e, st)
                 | Inr response_data \<Rightarrow>
                     (respond (py_pydantic py) response_data,
                      st\<lparr>cache := set_cache cfg (time_store w) cache_key response_data
                                     (cache st)\<rparr>)))"

text \<open>
  \<^verbatim>\<open>
  cache_key = get_cache_key(request.repo_url, request.issue_number)
  cached_data = get_from_cache(cache_key)
  if cached_data:
      return AnalysisResponse(**cached_data)
  \<close>
  An empty dictionary is false.
\<close>

definition analyze_issue_endpoint ::
  "config \<Rightarrow> python \<Rightarrow> world \<Rightarrow> request \<Rightarrow> app_state \<Rightarrow> http_response \<times> app_state" where
  "analyze_issue_endpoint cfg py w request st =
     (let cache_key = get_cache_key (req_repo_url request) (req_issue_number request);
          (cached_data, cache') = get_from_cache cfg (time_lookup w) cache_key (cache st);
          st = st\<lparr>cache := cache'\<rparr>
      in case cached_data of
           None \<Rightarrow> analyze_fresh cfg py w request cache_key st
         | Some data \<Rightarrow>
             if data \<noteq> [] then (respond (py_pydantic py) data, st)
             else analyze_fresh cfg py w request cache_key st)"

text \<open>
  \<^verbatim>\<open>
  @app.delete("/api/cache")
  async def clear_cache():
      cache.clear()
  \<close>
\<close>

definition clear_cache :: "app_state \<Rightarrow> app_state" where
  "clear_cache st = st\<lparr>cache := Map.empty\<rparr>"

text \<open>
  A run of the process from its start: the requests it serves, one after the other, each
  in the world of its moment, and the responses of the analyses in order.
\<close>

definition initial_state :: app_state where
  "initial_state = \<lparr> cache = Map.empty, invocations = [] \<rparr>"

datatype event = Analyze world request | ClearCache

fun serve :: "config \<Rightarrow> python \<Rightarrow> event list \<Rightarrow> app_state \<Rightarrow> http_response list \<times> app_state" where
  "serve cfg py [] st = ([], st)"
| "serve cfg py (Analyze w request # rest) st =
     (let (resp, st') = analyze_issue_endpoint cfg py w request st;
          (resps, st'') = serve cfg py rest st'
      in (resp # resps, st''))"
| "serve cfg py (ClearCache # rest) st = serve cfg py rest (clear_cache st)"

text \<open>
  The invariant of the cache: every stored dictionary has a \<open>metadata\<close> dictionary
  whose \<open>cached\<close> entry is \<open>False\<close>.
\<close>

definition uncached :: "pydict \<Rightarrow> bool" where
  "uncached data =
     (case map_of data ''metadata'' of
        Some (JObj m) \<Rightarrow> map_of m ''cached'' = Some (JBool False)
      | _ \<Rightarrow> False)"

definition cache_uncached :: "pydict cache \<Rightarrow> bool" where
  "cache_uncached c = (\<forall>k data ts. c k = Some (data, ts) \<longrightarrow> uncached data)"

section \<open>A worked example\<close>

text \<open>
  One request for issue 1 of \<open>octocat/Hello-World\<close> with a cache of one hour. In the
  first world GitHub returns the issue, the comments request times out and the model
  fails on both passes; the request is looked up at second 100 and stored at second 130.
  In the later world, at second 3600, GitHub refuses connections. In the third world
  GitHub answers the issue request with status 500. \<open>json.loads\<close> rejects every text,
  and pydantic takes a string for a \<open>str\<close> field and a one-element list of a string for
  the \<open>list[str]\<close> field.
\<close>

definition ex_config :: config where
  "ex_config = \<lparr> CACHE_ENABLED = True, CACHE_TTL = 3600 \<rparr>"

definition ex_python :: python where
  "ex_python =
     \<lparr> json_loads = (\<lambda>text. Inl ''Expecting value''),
       py_repr = (\<lambda>v. ''?''),
       py_pydantic =
         \<lparr> as_str = (\<lambda>v. case v of JStr s \<Rightarrow> Some s | _ \<Rightarrow> None),
           as_str_list = (\<lambda>v. case v of JArr [JStr s] \<Rightarrow> Some [s] | _ \<Rightarrow> None),
           validation_error = (\<lambda>d. ''validation error for AnalysisResponse'') \<rparr> \<rparr>"

definition ex_issue :: gh_issue where
  "ex_issue =
     \<lparr> gh_title = Some ''Crash on save'', gh_body = None, gh_state = Some ''open'',
       gh_labels = Some [\<lparr> label_name = ''bug'' \<rparr>], gh_comments = Some 2,
       gh_created_at = Some ''2024-01-01T00:00:00Z'',
       gh_html_url = Some ''https://github.com/octocat/Hello-World/issues/1'' \<rparr>"

definition ex_world :: world where
  "ex_world =
     \<lparr> issue_get = (\<lambda>url. Payload ex_issue),
       comments_get = (\<lambda>url. RequestException ''Read timed out''),
       generate_content = (\<lambda>attempt prompt. Inl (OtherError ''quota exceeded'')),
       time_lookup = 100, time_store = 130 \<rparr>"

definition ex_world_later :: world where
  "ex_world_later =
     \<lparr> issue_get = (\<lambda>url. RequestException ''Connection refused''),
       comments_get = (\<lambda>url. RequestException ''Connection refused''),
       generate_content = (\<lambda>attempt prompt. Inl (OtherError ''quota exceeded'')),
       time_lookup = 3600, time_store = 3600 \<rparr>"

definition ex_world_down :: world where
  "ex_world_down =
     \<lparr> issue_get = (\<lambda>url. if url = ''https://api.github.com/repos/octocat/Hello-World/issues/1''
                            then HTTPError 500 ''500 Server Error: Internal Server Error''
                            else RequestException ''Connection refused''),
       comments_get = (\<lambda>url. Payload []),
       generate_content = (\<lambda>attempt prompt. Inl (OtherError ''quota exceeded'')),
       time_lookup = 100, time_store = 130 \<rparr>"

definition ex_request :: request where
  "ex_request =
     \<lparr> req_repo_url = ''https://github.com/octocat/Hello-World'', req_issue_number = 1 \<rparr>"

definition ex_record :: issue_data where
  "ex_record =
     \<lparr> issue_title = Some ''Crash on save'', issue_body = Some [],
       issue_state = Some ''open'', issue_labels = Some [''bug''],
       issue_comments_count = Some 2, issue_comments = Some [],
       issue_created_at = Some ''2024-01-01T00:00:00Z'',
       issue_html_url = Some ''https://github.com/octocat/Hello-World/issues/1'' \<rparr>"

definition ex_data :: pydict where
  "ex_data =
     [(''summary'', JStr (''Analysis unavailable: LLM analysis failed after 2 attempts: '' @
                          ''quota exceeded'')),
      (''type'', JStr ''other''),
      (''priority_score'', JStr ''3 - Unable to determine automatically''),
      (''suggested_labels'', JArr [JStr ''needs-triage'']),
      (''potential_impact'', JStr ''Unable to analyze due to LLM error''),
      (''metadata'',
       JObj [(''issue_url'', JStr ''https://github.com/octocat/Hello-World/issues/1''),
             (''issue_state'', JStr ''open''),
             (''comments_count'', JInt 2),
             (''created_at'', JStr ''2024-01-01T00:00:00Z''),
             (''cached'', JBool False)])]"

definition ex_response :: analysis_response where
  "ex_response =
     \<lparr> r_summary = ''Analysis unavailable: LLM analysis failed after 2 attempts: '' @
                   ''quota exceeded'',
       r_type = ''other'',
       r_priority_score = ''3 - Unable to determine automatically'',
       r_suggested_labels = [''needs-triage''],
       r_potential_impact = ''Unable to analyze due to LLM error'',
       r_metadata =
         [(''issue_url'', JStr ''https://github.com/octocat/Hello-World/issues/1''),
          (''issue_state'', JStr ''open''),
          (''comments_count'', JInt 2),
          (''created_at'', JStr ''2024-01-01T00:00:00Z''),
          (''cached'', JBool False)] \<rparr>"

definition ex_state :: app_state where
  "ex_state =
     \<lparr> cache = [''https://github.com/octocat/Hello-World::1'' \<mapsto> (ex_data, 130)],
       invocations = [Retriever, Engine] \<rparr>"

text \<open>
  A reply of the model: a fenced JSON object with a \<open>type\<close> outside the five valid
  ones and a \<open>suggested_labels\<close> that is a string, followed by a remark; and the
  \<open>json.loads\<close> of that one object. An issue with a body of 4001 characters and twelve
  comments of 501 characters each.
\<close>

definition ex_reply_json :: string where
  \<open>ex_reply_json =
     ''{"summary": "App crashes", "type": "typo", "priority_score": "4 - High", '' @
     ''"suggested_labels": "bug", "potential_impact": "Data loss"}''\<close>

definition ex_reply :: string where
  "ex_reply = ''  ```json'' @ nl @ ex_reply_json @ nl @ ''```'' @ nl @ ''Hope this helps!''"

definition ex_reply_data :: pydict where
  "ex_reply_data =
     [(''summary'', JStr ''App crashes''), (''type'', JStr ''typo''),
      (''priority_score'', JStr ''4 - High''), (''suggested_labels'', JStr ''bug''),
      (''potential_impact'', JStr ''Data loss'')]"

definition ex_loads :: "string \<Rightarrow> string + json" where
  "ex_loads text =
     (if text = ex_reply_json then Inr (JObj ex_reply_data) else Inl ''Expecting value'')"

definition ex_long_comment :: comment where
  "ex_long_comment =
     \<lparr> c_author = Some ''alice'', c_body = Some (replicate 501 CHR ''x''),
       c_created_at = Some ''2024-01-01T00:00:00Z'' \<rparr>"

definition ex_long_issue :: issue_data where
  "ex_long_issue =
     \<lparr> issue_title = Some ''Crash on save'', issue_body = Some (replicate 4001 CHR ''a''),
       issue_state = Some ''open'', issue_labels = Some [''bug'', ''ui''],
       issue_comments_count = Some 12, issue_comments = Some (replicate 12 ex_long_comment),
       issue_created_at = Some ''2024-01-01T00:00:00Z'',
       issue_html_url = Some ''https://github.com/octocat/Hello-World/issues/1'' \<rparr>"

section \<open>Properties\<close>

text \<open>
  C2. \<open>get_from_cache\<close> returns a stored value exactly when caching is enabled, the key
  is present and \<open>now - timestamp < CACHE_TTL\<close>. With caching disabled it returns nothing
  and leaves the cache as it is. For a present entry with \<open>now - timestamp \<ge> CACHE_TTL\<close>
  it deletes the entry and returns nothing, so an expired entry is never returned. A
  lookup that returns a value leaves the cache as it is.
\<close>

theorem get_from_cache_contract:
  "(fst (get_from_cache cfg now k c) = Some v \<longleftrightarrow>
      CACHE_ENABLED cfg \<and> (\<exists>ts. c k = Some (v, ts) \<and> now - ts < real_of_int (CACHE_TTL cfg))) \<and>
   (\<not> CACHE_ENABLED cfg \<longrightarrow> get_from_cache cfg now k c = (None, c)) \<and>
   (CACHE_ENABLED cfg \<and> c k = Some (v', ts') \<and> now - ts' \<ge> real_of_int (CACHE_TTL cfg) \<longrightarrow>
      get_from_cache cfg now k c = (None, c(k := None))) \<and>
   (fst (get_from_cache cfg now k c) \<noteq> None \<longrightarrow> snd (get_from_cache cfg now k c) = c)"
  by (auto simp: get_from_cache_def split: option.splits)

theorem get_from_cache_contract_witness:
  "fst (get_from_cache \<lparr>CACHE_ENABLED = True, CACHE_TTL = 3600\<rparr> 3599 ''k''
          [''k'' \<mapsto> (''v'', 0)]) = Some ''v'' \<and>
   snd (get_from_cache \<lparr>CACHE_ENABLED = True, CACHE_TTL = 3600\<rparr> 3599 ''k''
          [''k'' \<mapsto> (''v'', 0)]) = [''k'' \<mapsto> (''v'', 0)] \<and>
   get_from_cache \<lparr>CACHE_ENABLED = False, CACHE_TTL = 3600\<rparr> 3599 ''k''
          [''k'' \<mapsto> (''v'', 0)] = (None, [''k'' \<mapsto> (''v'', 0)]) \<and>
   get_from_cache \<lparr>CACHE_ENABLED = True, CACHE_TTL = 3600\<rparr> 3600 ''k''
          [''k'' \<mapsto> (''v'', 0)] = (None, [''k'' \<mapsto> (''v'', 0)](''k'' := None))"
  using get_from_cache_contract
          [of "\<lparr>CACHE_ENABLED = True, CACHE_TTL = 3600\<rparr>" 3599 "''k''"
              "[''k'' \<mapsto> (''v'', 0)]" "''v''" "''v''" 0]
        get_from_cache_contract
          [of "\<lparr>CACHE_ENABLED = False, CACHE_TTL = 3600\<rparr>" 3599 "''k''"
              "[''k'' \<mapsto> (''v'', 0)]" "''v''" "''v''" 0]
        get_from_cache_contract
          [of "\<lparr>CACHE_ENABLED = True, CACHE_TTL = 3600\<rparr>" 3600 "''k''"
              "[''k'' \<mapsto> (''v'', 0)]" "''v''" "''v''" 0]
  by simp

subsection \<open>github_client.py: parsing the repository URL\<close>








lemma parse_examples:
  "parse_repo_url ''https://github.com/octocat/Hello-World'' = Inr (''octocat'', ''Hello-World'')"
  "parse_repo_url ''https://github.com/octocat/Hello-World.git'' = Inr (''octocat'', ''Hello-World'')"
  "parse_repo_url ''https://github.com/octocat/Hello-World/'' = Inr (''octocat'', ''Hello-World'')"
  "parse_repo_url ''https://github.com/octocat/Hello-World.git/'' = Inr (''octocat'', ''Hello-World'')"
  "parse_repo_url ''https://github.com/octocat/Hello-World/issues/7'' = Inr (''octocat'', ''Hello-World'')"
  "parse_repo_url ''not a url'' =
     Inl (ValueError (''Invalid GitHub repository URL: not a url. '' @
                      ''Expected format: https://github.com/owner/repo''))"
  by code_simp+

text \<open>
  C9. \<open>get_cache_key\<close> is a function of its two arguments alone, and for one issue
  number two different URL texts always give two different keys, whether or not the two
  texts name the same repository: the key is built from the raw URL text.
\<close>

theorem get_cache_key_pure_and_separating:
  "get_cache_key u n = get_cache_key u n \<and>
   (u1 \<noteq> u2 \<longrightarrow> get_cache_key u1 n \<noteq> get_cache_key u2 n)"
  by (simp add: get_cache_key_def)


theorem get_cache_key_pure_and_separating_witness:
  "''https://github.com/octocat/Hello-World'' \<noteq> ''https://github.com/octocat/Hello-World.git'' \<and>
   parse_repo_url ''https://github.com/octocat/Hello-World'' =
     parse_repo_url ''https://github.com/octocat/Hello-World.git'' \<and>
   get_cache_key ''https://github.com/octocat/Hello-World'' 7 \<noteq>
     get_cache_key ''https://github.com/octocat/Hello-World.git'' 7"
  using get_cache_key_pure_and_separating
    [of "''https://github.com/octocat/Hello-World''" 7
        "''https://github.com/octocat/Hello-World''"
        "''https://github.com/octocat/Hello-World.git''"]
  by (simp add: parse_examples)





lemma rstrip_chr_id: "c \<notin> set s \<Longrightarrow> rstrip_chr c s = s"
proof -
  assume "c \<notin> set s"
  then have "c \<notin> set (rev s)"
    by simp
  then have "dropWhile (\<lambda>x. x = c) (rev s) = rev s"
    by (cases "rev s") auto
  then show ?thesis
    by (simp add: rstrip_chr_def)
qed

lemma replace_from_absent:
  "old \<noteq> [] \<Longrightarrow> \<not> contains s old \<Longrightarrow> replace_from old new s = s"
  by (induction s) auto

lemma replace_from_first:
  "CHR ''.'' \<notin> set a \<Longrightarrow>
   replace_from ''.git'' [] (a @ ''.git'' @ b) = a @ replace_from ''.git'' [] b"
  by (induction a) (auto simp: startswith_def)

lemma clean_repo_group:
  "CHR ''/'' \<notin> set repo \<Longrightarrow> clean_repo repo = replace_from ''.git'' [] repo"
  by (simp add: clean_repo_def rstrip_chr_id str_replace_def)

lemma clean_repo_absent:
  "CHR ''/'' \<notin> set repo \<Longrightarrow> \<not> contains repo ''.git'' \<Longrightarrow> clean_repo repo = repo"
  by (simp add: clean_repo_group replace_from_absent)

lemma clean_repo_first:
  assumes "CHR ''.'' \<notin> set a" and "CHR ''/'' \<notin> set a" and "CHR ''/'' \<notin> set b"
  shows "clean_repo (a @ ''.git'' @ b) = a @ clean_repo b"
proof -
  have "CHR ''/'' \<notin> set (a @ ''.git'' @ b)"
    using assms by simp
  then have "clean_repo (a @ ''.git'' @ b) = replace_from ''.git'' [] (a @ ''.git'' @ b)"
    by (rule clean_repo_group)
  also have "\<dots> = a @ replace_from ''.git'' [] b"
    using assms(1) by (rule replace_from_first)
  also have "\<dots> = a @ clean_repo b"
    using assms(3) by (simp add: clean_repo_group)
  finally show ?thesis .
qed









subsection \<open>llm_analyzer.py: the fallback of the analysis\<close>

lemma str_nat_2: "str_nat 2 = ''2''"
  by code_simp

lemma try_bind_Inr_iff:
  "try_bind m f = Inr y \<longleftrightarrow> (\<exists>x. m = Inr x \<and> f x = Inr y)"
  by (cases m) (auto simp: try_bind_def)

lemma try_bind_simps [simp]:
  "try_bind (Inr x) f = f x"
  "try_bind (Inl e) f = Inl e"
  by (simp_all add: try_bind_def)

lemma py_getitem_Inr: "py_getitem data key = Inr v \<Longrightarrow> \<exists>kvs. data = JObj kvs"
  by (cases data) auto

lemma py_setitem_Inr: "py_setitem data key v = Inr data' \<Longrightarrow> \<exists>kvs. data' = JObj kvs"
  by (cases data) auto

lemma validate_data_obj: "validate_data repr data = Inr a \<Longrightarrow> \<exists>kvs. a = JObj kvs"
  unfolding validate_data_def try_bind_Inr_iff
  by (auto split: if_splits dest: py_getitem_Inr py_setitem_Inr)

lemma parse_response_obj: "parse_response loads repr t = Inr a \<Longrightarrow> \<exists>kvs. a = JObj kvs"
  by (auto simp: parse_response_def parse_json_def Let_def split: sum.splits dest: validate_data_obj)

lemma retry_loop_two_failures:
  assumes "attempt_once generate loads repr p 0 = Inl e1"
      and "attempt_once generate loads repr p 1 = Inl e2"
  shows "retry_loop generate loads repr p [0..<max_retries] None =
           Inl (ValueError (''LLM analysis failed after 2 attempts: '' @ str_exn e2))"
proof -
  have "[0..<max_retries] = [0, 1]"
    by (simp add: max_retries_def upt_rec)
  then show ?thesis
    using assms by (simp add: str_nat_2 max_retries_def del: One_nat_def)
qed

lemma schema_conforming_fallback: "schema_conforming (fallback e)"
  by (simp add: schema_conforming_def fallback_def valid_types_def)

text \<open>
  C1. \<open>analyze_issue\<close> returns a dictionary and raises nothing: its result type has no
  exception, because the outer handler turns every exception of its body into the
  fallback dictionary. When both passes of the loop fail, each in the call to the model or
  in \<open>parse_response\<close>, the result is the fallback: its summary holds the text of the
  error of the second pass, its type is \<open>other\<close>, its priority score says that the
  priority could not be determined, its labels are \<open>["needs-triage"]\<close>, its impact states
  the failure, and it conforms to the schema.
\<close>

theorem analyze_issue_fallback:
  assumes "attempt_once generate loads repr (create_prompt d) 0 = Inl e1"
      and "attempt_once generate loads repr (create_prompt d) 1 = Inl e2"
  shows "analyze_issue generate loads repr d =
           JObj [(''summary'', JStr (''Analysis unavailable: LLM analysis failed after 2 attempts: '' @
                                     str_exn e2)),
                 (''type'', JStr ''other''),
                 (''priority_score'', JStr ''3 - Unable to determine automatically''),
                 (''suggested_labels'', JArr [JStr ''needs-triage'']),
                 (''potential_impact'', JStr ''Unable to analyze due to LLM error'')] \<and>
         schema_conforming (analyze_issue generate loads repr d)"
proof -
  have "analyze_issue generate loads repr d =
          fallback (ValueError (''LLM analysis failed after 2 attempts: '' @ str_exn e2))"
    by (simp add: analyze_issue_def retry_loop_two_failures[OF assms])
  moreover have "fallback (ValueError (''LLM analysis failed after 2 attempts: '' @ str_exn e2)) =
      JObj [(''summary'', JStr (''Analysis unavailable: LLM analysis failed after 2 attempts: '' @
                                str_exn e2)),
            (''type'', JStr ''other''),
            (''priority_score'', JStr ''3 - Unable to determine automatically''),
            (''suggested_labels'', JArr [JStr ''needs-triage'']),
            (''potential_impact'', JStr ''Unable to analyze due to LLM error'')]"
    by (simp add: fallback_def)
  ultimately show ?thesis
    using schema_conforming_fallback by metis
qed

lemma analyze_issue_obj: "\<exists>kvs. analyze_issue generate loads repr d = JObj kvs"
proof -
  have "retry_loop generate loads repr p as last = Inr a \<Longrightarrow> \<exists>kvs. a = JObj kvs"
    for p as last a
    by (induction as arbitrary: last)
       (auto simp: attempt_once_def try_bind_Inr_iff split: sum.splits dest: parse_response_obj)
  then show ?thesis
    by (auto simp: analyze_issue_def fallback_def split: sum.splits)
qed


theorem analyze_issue_fallback_witness:
  "analyze_issue
     (\<lambda>attempt prompt. if attempt = 0 then Inl (OtherError ''503 backend unavailable'')
                       else Inr ''no json here'')
     (\<lambda>text. Inl ''Expecting value'') (\<lambda>v. [])
     \<lparr> issue_title = Some ''Crash on save'', issue_body = Some ''It crashes.'',
       issue_state = Some ''open'', issue_labels = Some [], issue_comments_count = Some 0,
       issue_comments = Some [], issue_created_at = Some [], issue_html_url = Some [] \<rparr> =
   JObj [(''summary'', JStr (''Analysis unavailable: LLM analysis failed after 2 attempts: '' @
                             ''Failed to parse LLM response as JSON: Expecting value'' @ nl @
                             ''Response: no json here'')),
         (''type'', JStr ''other''),
         (''priority_score'', JStr ''3 - Unable to determine automatically''),
         (''suggested_labels'', JArr [JStr ''needs-triage'']),
         (''potential_impact'', JStr ''Unable to analyze due to LLM error'')] \<and>
   schema_conforming
     (analyze_issue
        (\<lambda>attempt prompt. if attempt = 0 then Inl (OtherError ''503 backend unavailable'')
                          else Inr ''no json here'')
        (\<lambda>text. Inl ''Expecting value'') (\<lambda>v. [])
        \<lparr> issue_title = Some ''Crash on save'', issue_body = Some ''It crashes.'',
          issue_state = Some ''open'', issue_labels = Some [], issue_comments_count = Some 0,
          issue_comments = Some [], issue_created_at = Some [], issue_html_url = Some [] \<rparr>)"
proof -
  let ?g = "\<lambda>attempt prompt. if attempt = (0::nat) then Inl (OtherError ''503 backend unavailable'')
                              else (Inr ''no json here'' :: exn + string)"
  let ?l = "\<lambda>text :: string. (Inl ''Expecting value'' :: string + json)"
  let ?r = "\<lambda>v :: json. ([] :: string)"
  have strip: "py_strip ''no json here'' = ''no json here''"
    by code_simp
  have h0: "attempt_once ?g ?l ?r p 0 = Inl (OtherError ''503 backend unavailable'')" for p
    by (simp add: attempt_once_def)
  have h1: "attempt_once ?g ?l ?r p 1 =
              Inl (ValueError (''Failed to parse LLM response as JSON: Expecting value'' @ nl @
                               ''Response: no json here''))" for p
    by (simp add: attempt_once_def parse_response_def parse_json_def strip startswith_def)
  show ?thesis
    using analyze_issue_fallback [OF h0 h1] unfolding str_exn.simps .
qed

subsection \<open>llm_analyzer.py: parsing the reply of the model\<close>

lemma fence_scan_started:
  "start_idx \<noteq> 0 \<Longrightarrow>
   fence_scan i ls start_idx end_idx =
     (start_idx, if \<exists>l \<in> set ls. is_fence l
                 then i + length (takeWhile (\<lambda>l. \<not> is_fence l) ls) else end_idx)"
proof (induction ls arbitrary: i)
  case Nil
  then show ?case by simp
next
  case (Cons l ls)
  show ?case
  proof (cases "is_fence l")
    case True
    with Cons.prems show ?thesis
      by (simp add: is_fence_def)
  next
    case False
    then have "fence_scan i (l # ls) start_idx end_idx = fence_scan (Suc i) ls start_idx end_idx"
      by (simp add: is_fence_def)
    also have "\<dots> = (start_idx, if \<exists>l \<in> set ls. is_fence l
                 then Suc i + length (takeWhile (\<lambda>l. \<not> is_fence l) ls) else end_idx)"
      by (rule Cons.IH[OF Cons.prems])
    also have "\<dots> = (start_idx, if \<exists>l \<in> set (l # ls). is_fence l
                 then i + length (takeWhile (\<lambda>l. \<not> is_fence l) (l # ls)) else end_idx)"
      using False by (simp del: fence_scan.simps)
    finally show ?thesis .
  qed
qed

lemma slice_interior:
  "slice 1 (if \<exists>l \<in> set rest. is_fence l
            then 1 + length (takeWhile (\<lambda>l. \<not> is_fence l) rest) else length (l0 # rest))
     (l0 # rest) = takeWhile (\<lambda>l. \<not> is_fence l) rest"
proof (cases "\<exists>l \<in> set rest. is_fence l")
  case True
  then show ?thesis
    by (simp add: slice_def takeWhile_eq_take[symmetric])
next
  case False
  then have "takeWhile (\<lambda>l. \<not> is_fence l) rest = rest"
    by (intro takeWhile_eq_all_conv[THEN iffD2]) simp
  moreover have "slice 1 (length (l0 # rest)) (l0 # rest) = rest"
    by (simp add: slice_def)
  ultimately show ?thesis
    using False by (simp only: if_False)
qed

lemma split_chr_first:
  "\<exists>rest. split_chr c s = takeWhile (\<lambda>x. x \<noteq> c) s # rest"
  by (induction s) (auto split: list.splits)

lemma rstrip_keeps_prefix:
  assumes "p \<noteq> []" and "\<not> P (last p)"
  shows "\<exists>m'. rev (dropWhile P (rev (p @ m))) = p @ m'"
proof (cases "\<forall>x \<in> set (rev m). P x")
  case True
  then have "dropWhile P (rev m @ rev p) = dropWhile P (rev p)"
    by (intro dropWhile_append2) simp
  moreover have "dropWhile P (rev p) = rev p"
    using assms by (cases "rev p") (auto simp: last_rev hd_rev)
  ultimately show ?thesis by simp
next
  case False
  then have "dropWhile P (rev m @ rev p) = dropWhile P (rev m) @ rev p"
    by (metis dropWhile_append1)
  then show ?thesis by simp
qed

lemma fence_first_line:
  assumes "startswith s ''```''"
  shows "is_fence (takeWhile (\<lambda>x. x \<noteq> CHR 0x0A) s)"
proof -
  obtain m where s: "s = ''```'' @ m"
    using assms unfolding startswith_def by (metis append_take_drop_id)
  let ?l = "takeWhile (\<lambda>x. x \<noteq> CHR 0x0A) s"
  have l: "?l = ''```'' @ takeWhile (\<lambda>x. x \<noteq> CHR 0x0A) m"
    by (simp add: s)
  have ns: "\<not> is_space CHR ''`''"
    by (simp add: is_space_def)
  have "dropWhile is_space ?l = ?l"
    by (simp add: l ns)
  moreover obtain m' where "rev (dropWhile is_space (rev ?l)) = ''```'' @ m'"
    using rstrip_keeps_prefix[of "''```''" is_space] ns unfolding l by auto
  ultimately show ?thesis
    by (simp add: is_fence_def py_strip_def startswith_def)
qed

lemma unfence_interior:
  assumes "startswith s ''```''"
  shows "unfence s =
           str_join nl (takeWhile (\<lambda>l. \<not> is_fence l) (tl (split_chr CHR 0x0A s)))"
proof -
  obtain rest where sp: "split_chr CHR 0x0A s = takeWhile (\<lambda>x. x \<noteq> CHR 0x0A) s # rest"
    using split_chr_first by blast
  let ?l0 = "takeWhile (\<lambda>x. x \<noteq> CHR 0x0A) s"
  have f0: "startswith (py_strip ?l0) ''```''"
    using fence_first_line[OF assms] by (simp add: is_fence_def)
  have "fence_scan 0 (?l0 # rest) 0 (length (?l0 # rest)) =
          fence_scan 1 rest 1 (length (?l0 # rest))"
    using f0 by simp
  also have "\<dots> = (1, if \<exists>l \<in> set rest. is_fence l
                       then 1 + length (takeWhile (\<lambda>l. \<not> is_fence l) rest)
                       else length (?l0 # rest))"
    by (rule fence_scan_started) simp
  finally show ?thesis
    unfolding unfence_def sp Let_def using slice_interior[of rest ?l0]
    by (simp del: fence_scan.simps)
qed


lemma check_required_obj:
  "check_required fs (JObj kvs) =
     (case List.find (\<lambda>f. f \<notin> fst ` set kvs) fs of
        None \<Rightarrow> Inr ()
      | Some g \<Rightarrow> Inl (ValueError (''Missing required field: '' @ g)))"
  by (induction fs) auto

lemma check_required_fails:
  "f \<in> set fs \<Longrightarrow> py_in f data \<noteq> Inr True \<Longrightarrow> \<exists>e. check_required fs data = Inl e"
proof (induction fs)
  case Nil
  then show ?case by simp
next
  case (Cons g fs)
  show ?case
  proof (cases "py_in g data")
    case (Inl e)
    then show ?thesis by simp
  next
    case (Inr present)
    with Cons show ?thesis by (cases present) auto
  qed
qed

lemma validate_data_fails:
  "f \<in> set required_fields \<Longrightarrow> py_in f data \<noteq> Inr True \<Longrightarrow> \<exists>e. validate_data repr data = Inl e"
  using check_required_fails[of f required_fields data]
  by (auto simp: validate_data_def)

lemma validate_data_missing:
  "List.find (\<lambda>f. f \<notin> fst ` set kvs) required_fields = Some g \<Longrightarrow>
   validate_data repr (JObj kvs) = Inl (ValueError (''Missing required field: '' @ g))"
  by (simp add: validate_data_def check_required_obj)

lemma map_of_dict_set: "map_of (dict_set k v kvs) = (map_of kvs)(k \<mapsto> v)"
  by (induction kvs) auto

lemma dict_set_same: "map_of kvs k = Some v \<Longrightarrow> dict_set k v kvs = kvs"
  by (induction kvs) (auto split: if_splits)

lemma validate_data_present:
  assumes "List.find (\<lambda>f. f \<notin> fst ` set kvs) required_fields = None"
      and "map_of kvs ''type'' = Some ty"
      and "map_of kvs ''suggested_labels'' = Some ls"
  shows "validate_data repr (JObj kvs) =
           Inr (JObj (dict_set ''suggested_labels''
                        (if is_list ls then ls else JArr [JStr (py_str repr ls)])
                        (dict_set ''type''
                           (if ty \<in> JStr ` set valid_types then ty else JStr ''other'') kvs)))"
proof -
  let ?kvs1 = "dict_set ''type'' (if ty \<in> JStr ` set valid_types then ty else JStr ''other'') kvs"
  have 1: "(if ty \<notin> set (map JStr valid_types)
            then py_setitem (JObj kvs) ''type'' (JStr ''other'') else Inr (JObj kvs)) =
           Inr (JObj ?kvs1)"
    using assms(2) by (simp add: dict_set_same)
  have 2: "map_of ?kvs1 ''suggested_labels'' = Some ls"
    using assms(3) by (simp add: map_of_dict_set)
  have 3: "dict_set ''suggested_labels'' ls ?kvs1 = ?kvs1"
    using 2 by (rule dict_set_same)
  show ?thesis
    unfolding validate_data_def check_required_obj assms(1)
    using assms(2) 1 2 3 by (simp del: dict_set.simps)
qed


text \<open>
  C6. \<open>parse_response\<close> strips the text. If the stripped text starts with a fence, it
  parses only the lines after the first line, which is a fence line, up to the next
  fence line (or to the end when there is none); otherwise it parses the stripped text.
  Once \<open>json.loads\<close> has given a value, a required field that is not in the value
  makes the validation fail: for an object, with the \<open>ValueError\<close> that names the first
  required field missing among the keys. For an object with the five fields the
  validation succeeds: a \<open>type\<close> outside the five valid ones becomes \<open>other\<close>, a
  \<open>suggested_labels\<close> that is not a list becomes the list of its one \<open>str\<close>, which for
  a string is the string itself, and nothing else changes.
\<close>

theorem parse_response_contract:
  "(startswith (py_strip t) ''```'' \<longrightarrow>
      parse_response loads repr t =
        parse_json loads repr
          (str_join nl (takeWhile (\<lambda>l. \<not> is_fence l) (tl (split_chr CHR 0x0A (py_strip t)))))) \<and>
   (\<not> startswith (py_strip t) ''```'' \<longrightarrow>
      parse_response loads repr t = parse_json loads repr (py_strip t)) \<and>
   (loads text = Inr data \<longrightarrow> parse_json loads repr text = validate_data repr data) \<and>
   (f \<in> set required_fields \<and> py_in f data \<noteq> Inr True \<longrightarrow>
      (\<exists>e. validate_data repr data = Inl e)) \<and>
   (List.find (\<lambda>f. f \<notin> fst ` set kvs) required_fields = Some g \<longrightarrow>
      validate_data repr (JObj kvs) = Inl (ValueError (''Missing required field: '' @ g))) \<and>
   (List.find (\<lambda>f. f \<notin> fst ` set kvs) required_fields = None \<and>
    map_of kvs ''type'' = Some ty \<and> map_of kvs ''suggested_labels'' = Some ls \<longrightarrow>
      validate_data repr (JObj kvs) =
        Inr (JObj (dict_set ''suggested_labels''
                     (if is_list ls then ls else JArr [JStr (py_str repr ls)])
                     (dict_set ''type''
                        (if ty \<in> JStr ` set valid_types then ty else JStr ''other'') kvs)))) \<and>
   py_str repr (JStr s) = s"
proof -
  have "startswith (py_strip t) ''```'' \<Longrightarrow>
        parse_response loads repr t =
          parse_json loads repr
            (str_join nl (takeWhile (\<lambda>l. \<not> is_fence l) (tl (split_chr CHR 0x0A (py_strip t)))))"
    by (simp add: parse_response_def Let_def unfence_interior)
  moreover have "\<not> startswith (py_strip t) ''```'' \<Longrightarrow>
        parse_response loads repr t = parse_json loads repr (py_strip t)"
    by (simp add: parse_response_def Let_def)
  moreover have "loads text = Inr data \<Longrightarrow> parse_json loads repr text = validate_data repr data"
    by (simp add: parse_json_def)
  ultimately show ?thesis
    using validate_data_fails[of f data repr] validate_data_missing[of kvs g repr]
      validate_data_present[of kvs ty ls repr]
    by simp
qed

theorem parse_response_contract_witness:
  "parse_response ex_loads (\<lambda>v. ''?'') ex_reply =
     Inr (JObj [(''summary'', JStr ''App crashes''), (''type'', JStr ''other''),
                (''priority_score'', JStr ''4 - High''),
                (''suggested_labels'', JArr [JStr ''bug'']),
                (''potential_impact'', JStr ''Data loss'')]) \<and>
   validate_data (\<lambda>v. ''?'')
     (JObj [(''summary'', JStr ''App crashes''), (''type'', JStr ''bug''),
            (''priority_score'', JStr ''4 - High''),
            (''suggested_labels'', JArr [JStr ''bug''])]) =
     Inl (ValueError ''Missing required field: potential_impact'') \<and>
   (\<exists>e. validate_data (\<lambda>v. ''?'') (JInt 5) = Inl e) \<and>
   parse_response ex_loads (\<lambda>v. ''?'') ''Sorry, I cannot help.'' =
     parse_json ex_loads (\<lambda>v. ''?'') ''Sorry, I cannot help.''"
proof -
  let ?R = "\<lambda>v :: json. ''?''"
  let ?kvs4 = "[(''summary'', JStr ''App crashes''), (''type'', JStr ''bug''),
                (''priority_score'', JStr ''4 - High''),
                (''suggested_labels'', JArr [JStr ''bug''])]"
  have fenced: "startswith (py_strip ex_reply) ''```''"
    by code_simp
  have interior:
    "str_join nl (takeWhile (\<lambda>l. \<not> is_fence l) (tl (split_chr CHR 0x0A (py_strip ex_reply)))) =
       ex_reply_json"
    by code_simp
  have loads: "ex_loads ex_reply_json = Inr (JObj ex_reply_data)"
    by (simp add: ex_loads_def)
  have present: "List.find (\<lambda>f. f \<notin> fst ` set ex_reply_data) required_fields = None"
    by (simp add: required_fields_def ex_reply_data_def)
  have missing: "List.find (\<lambda>f. f \<notin> fst ` set ?kvs4) required_fields = Some ''potential_impact''"
    by (simp add: required_fields_def)
  have ty: "map_of ex_reply_data ''type'' = Some (JStr ''typo'')"
    and ls: "map_of ex_reply_data ''suggested_labels'' = Some (JStr ''bug'')"
    by (simp_all add: ex_reply_data_def)
  have unknown: "JStr ''typo'' \<notin> JStr ` set valid_types"
    by (simp add: valid_types_def)
  have scalar: "''summary'' \<in> set required_fields \<and> py_in ''summary'' (JInt 5) \<noteq> Inr True"
    by (simp add: required_fields_def)
  have strip2: "py_strip ''Sorry, I cannot help.'' = ''Sorry, I cannot help.''"
    by code_simp
  have plain: "\<not> startswith (py_strip ''Sorry, I cannot help.'') ''```''"
    by code_simp
  note t = parse_response_contract
  have a: "parse_response ex_loads ?R ex_reply = parse_json ex_loads ?R ex_reply_json"
    using t[of ex_reply ex_loads ?R] fenced interior by simp
  have b: "parse_json ex_loads ?R ex_reply_json = validate_data ?R (JObj ex_reply_data)"
    using t[of _ ex_loads ?R ex_reply_json "JObj ex_reply_data"] loads by blast
  have c: "validate_data ?R (JObj ex_reply_data) =
             Inr (JObj (dict_set ''suggested_labels'' (JArr [JStr ''bug''])
                          (dict_set ''type'' (JStr ''other'') ex_reply_data)))"
    using t[of _ _ ?R _ _ _ ex_reply_data _ "JStr ''typo''" "JStr ''bug''" "''bug''"]
      present ty ls unknown by simp
  have d: "validate_data ?R (JObj ?kvs4) =
             Inl (ValueError ''Missing required field: potential_impact'')"
    using t[of _ _ ?R _ _ _ ?kvs4 "''potential_impact''"] missing by simp
  have e: "\<exists>e. validate_data ?R (JInt 5) = Inl e"
    using t[of _ _ ?R _ "JInt 5" "''summary''"] scalar by blast
  have f: "parse_response ex_loads ?R ''Sorry, I cannot help.'' =
           parse_json ex_loads ?R ''Sorry, I cannot help.''"
    using t[of "''Sorry, I cannot help.''" ex_loads ?R] plain
    by (simp add: strip2)
  show ?thesis
    using a b c d e f by (simp add: ex_reply_data_def)
qed

subsection \<open>llm_analyzer.py: the prompt\<close>

lemma truncate_body_cases:
  "length b > 4000 \<Longrightarrow> truncate_body b = take 4000 b @ nl @ ''... (truncated for length)''"
  "length b \<le> 4000 \<Longrightarrow> truncate_body b = b"
  by (simp_all add: truncate_body_def)

lemma truncate_body_bound: "length (truncate_body b) \<le> 4027"
  by (simp add: truncate_body_def nl_def)

lemma truncate_comment_cases:
  "length b > 500 \<Longrightarrow> truncate_comment b = take 500 b @ ''...''"
  "length b \<le> 500 \<Longrightarrow> truncate_comment b = b"
  by (simp_all add: truncate_comment_def)

lemma truncate_comment_bound: "length (truncate_comment b) \<le> 503"
  by (simp add: truncate_comment_def)

lemma format_comments_closed:
  "format_comments i cs acc =
     acc @ concat (map (\<lambda>(j, c). comment_entry j c) (zip [i..<i + length cs] cs))"
proof (induction cs arbitrary: i acc)
  case Nil
  then show ?case by simp
next
  case (Cons c cs)
  have "[i..<i + length (c # cs)] = i # [Suc i..<Suc i + length cs]"
    by (simp add: upt_rec)
  then show ?case
    by (simp add: Cons.IH)
qed

lemma comments_section_closed:
  "issue_comments d = Some cs \<Longrightarrow> cs \<noteq> [] \<Longrightarrow>
   comments_section d =
     concat (map (\<lambda>(j, c). comment_entry j c) (zip [1..<1 + length (take 10 cs)] (take 10 cs)))"
  by (simp add: comments_section_def format_comments_closed del: upt_Suc)

lemma comments_section_take:
  "issue_comments d = Some cs \<Longrightarrow>
   comments_section (d\<lparr>issue_comments := Some (take 10 cs)\<rparr>) = comments_section d"
  by (simp add: comments_section_def)

lemma create_prompt_take:
  "issue_comments d = Some cs \<Longrightarrow>
   create_prompt (d\<lparr>issue_comments := Some (take 10 cs)\<rparr>) = create_prompt d"
  using comments_section_take[of d cs] by (simp add: create_prompt_def)

lemma create_prompt_reads:
  "issue_title d = issue_title d' \<Longrightarrow> issue_body d = issue_body d' \<Longrightarrow>
   issue_labels d = issue_labels d' \<Longrightarrow> issue_comments d = issue_comments d' \<Longrightarrow>
   create_prompt d = create_prompt d'"
  by (simp add: create_prompt_def comments_section_def)

lemma create_prompt_shape:
  "create_prompt d =
     str_join nl prompt_preamble @ nl @
     ''**Issue Title:** '' @ get_or ''No title'' (issue_title d) @ nl @ nl @
     ''**Issue Body:**'' @ nl @
     (if truncate_body (get_or [] (issue_body d)) \<noteq> []
      then truncate_body (get_or [] (issue_body d)) else ''No description provided'') @ nl @ nl @
     ''**Comments:**'' @ nl @ comments_section d @ nl @ nl @
     ''**Existing Labels:** '' @
     (case issue_labels d of
        None \<Rightarrow> ''None''
      | Some ls \<Rightarrow> if ls = [] then ''None'' else str_join '', '' ls) @ nl @ nl @
     ''Provide your analysis as valid JSON only:''"
  by (simp add: create_prompt_def Let_def)


text \<open>
  C8. \<open>create_prompt\<close> is a function of the issue dictionary and of nothing else, and
  of that dictionary it reads the title, the body, the labels and the comments only. The
  prompt is the fixed text with four insertions. The body is inserted whole when it has at
  most 4000 characters, and as its first 4000 characters followed by the truncation
  marker when it is longer. Only the first 10 comments are inserted: the prompt is the
  same as the prompt for the dictionary with the later comments removed. Each comment is
  inserted with its number, author and body, the body whole when it has at most 500
  characters and as its first 500 characters followed by \<open>...\<close> when it is longer.
\<close>

theorem create_prompt_bounded:
  "(issue_title d = issue_title d' \<and> issue_body d = issue_body d' \<and>
    issue_labels d = issue_labels d' \<and> issue_comments d = issue_comments d' \<longrightarrow>
      create_prompt d = create_prompt d') \<and>
   create_prompt d =
     str_join nl prompt_preamble @ nl @
     ''**Issue Title:** '' @ get_or ''No title'' (issue_title d) @ nl @ nl @
     ''**Issue Body:**'' @ nl @
     (if truncate_body (get_or [] (issue_body d)) \<noteq> []
      then truncate_body (get_or [] (issue_body d)) else ''No description provided'') @ nl @ nl @
     ''**Comments:**'' @ nl @ comments_section d @ nl @ nl @
     ''**Existing Labels:** '' @
     (case issue_labels d of
        None \<Rightarrow> ''None''
      | Some ls \<Rightarrow> if ls = [] then ''None'' else str_join '', '' ls) @ nl @ nl @
     ''Provide your analysis as valid JSON only:'' \<and>
   (length b > 4000 \<longrightarrow> truncate_body b = take 4000 b @ nl @ ''... (truncated for length)'') \<and>
   (length b \<le> 4000 \<longrightarrow> truncate_body b = b) \<and>
   length (truncate_body b) \<le> 4027 \<and>
   (issue_comments d = Some cs \<longrightarrow>
      create_prompt (d\<lparr>issue_comments := Some (take 10 cs)\<rparr>) = create_prompt d) \<and>
   (issue_comments d = Some cs \<and> cs \<noteq> [] \<longrightarrow>
      comments_section d =
        concat (map (\<lambda>(j, c). comment_entry j c)
                  (zip [1..<1 + length (take 10 cs)] (take 10 cs)))) \<and>
   comment_entry j c =
     nl @ ''Comment '' @ str_nat j @ '' by '' @ get_or ''unknown'' (c_author c) @ '':'' @ nl @
     truncate_comment (get_or [] (c_body c)) @ nl \<and>
   (length cb > 500 \<longrightarrow> truncate_comment cb = take 500 cb @ ''...'') \<and>
   (length cb \<le> 500 \<longrightarrow> truncate_comment cb = cb) \<and>
   length (truncate_comment cb) \<le> 503"
  using create_prompt_reads[of d d'] create_prompt_shape[of d] truncate_body_cases[of b]
    create_prompt_take[of d cs] comments_section_closed[of d cs] truncate_comment_cases[of cb]
    truncate_body_bound[of b] truncate_comment_bound[of cb]
  by (simp add: comment_entry_def)

theorem create_prompt_bounded_witness:
  "create_prompt ex_long_issue = create_prompt (ex_long_issue\<lparr>issue_state := Some ''closed''\<rparr>) \<and>
   truncate_body (replicate 4001 CHR ''a'') =
     take 4000 (replicate 4001 CHR ''a'') @ nl @ ''... (truncated for length)'' \<and>
   truncate_body ''It crashes.'' = ''It crashes.'' \<and>
   create_prompt (ex_long_issue\<lparr>issue_comments := Some (take 10 (replicate 12 ex_long_comment))\<rparr>) =
     create_prompt ex_long_issue \<and>
   comments_section ex_long_issue =
     concat (map (\<lambda>(j, c). comment_entry j c)
               (zip [1..<1 + length (take 10 (replicate 12 ex_long_comment))]
                    (take 10 (replicate 12 ex_long_comment)))) \<and>
   truncate_comment (replicate 501 CHR ''x'') = take 500 (replicate 501 CHR ''x'') @ ''...'' \<and>
   truncate_comment ''Same here.'' = ''Same here.''"
proof -
  let ?d = ex_long_issue
  let ?c = ex_long_comment
  have len: "length (replicate 4001 CHR ''a'') > 4000" "length ''It crashes.'' \<le> 4000"
    "length (replicate 501 CHR ''x'') > 500" "length ''Same here.'' \<le> 500"
    by simp_all
  have ne: "replicate 12 ?c \<noteq> []"
    by simp
  have cs: "issue_comments ?d = Some (replicate 12 ?c)"
    by (simp add: ex_long_issue_def)
  have rd: "issue_title ?d = issue_title (?d\<lparr>issue_state := Some ''closed''\<rparr>) \<and>
            issue_body ?d = issue_body (?d\<lparr>issue_state := Some ''closed''\<rparr>) \<and>
            issue_labels ?d = issue_labels (?d\<lparr>issue_state := Some ''closed''\<rparr>) \<and>
            issue_comments ?d = issue_comments (?d\<lparr>issue_state := Some ''closed''\<rparr>)"
    by simp
  note t = create_prompt_bounded
  have 1: "create_prompt ?d = create_prompt (?d\<lparr>issue_state := Some ''closed''\<rparr>)"
    using t[of ?d "?d\<lparr>issue_state := Some ''closed''\<rparr>"] rd by blast
  have 2: "truncate_body (replicate 4001 CHR ''a'') =
             take 4000 (replicate 4001 CHR ''a'') @ nl @ ''... (truncated for length)''"
    using t[of _ _ "replicate 4001 CHR ''a''"] len(1) by blast
  have 3: "truncate_body ''It crashes.'' = ''It crashes.''"
    using t[of _ _ "''It crashes.''"] len(2) by blast
  have 4: "create_prompt (?d\<lparr>issue_comments := Some (take 10 (replicate 12 ?c))\<rparr>) = create_prompt ?d"
    using t[of ?d _ _ "replicate 12 ?c"] cs by blast
  have 5: "comments_section ?d =
             concat (map (\<lambda>(j, c). comment_entry j c)
                       (zip [1..<1 + length (take 10 (replicate 12 ?c))]
                            (take 10 (replicate 12 ?c))))"
    using t[of ?d _ _ "replicate 12 ?c"] cs ne by blast
  have 6: "truncate_comment (replicate 501 CHR ''x'') = take 500 (replicate 501 CHR ''x'') @ ''...''"
    using t[of _ _ _ _ _ _ "replicate 501 CHR ''x''"] len(3) by blast
  have 7: "truncate_comment ''Same here.'' = ''Same here.''"
    using t[of _ _ _ _ _ _ "''Same here.''"] len(4) by blast
  show ?thesis
    using 1 2 3 4 5 6 7 by blast
qed

subsection \<open>app.py: the endpoint\<close>

lemma fetch_comments_failure:
  "\<forall>p. cget (comments_url owner repo n) \<noteq> Payload p \<Longrightarrow>
   fetch_comments cget owner repo n = []"
  by (cases "cget (comments_url owner repo n)") (auto simp: fetch_comments_def)

lemma fetch_comments_empty:
  "fetch_comments (\<lambda>url. Payload []) owner repo n = []"
  by (simp add: fetch_comments_def)

lemma get_issue_data_comments_failure:
  assumes "parse_repo_url repo_url = Inr (owner, repo)"
      and "fetch_issue iget owner repo n = Inr issue"
      and "\<forall>p. cget (comments_url owner repo n) \<noteq> Payload p"
  shows "\<exists>d. get_issue_data iget cget repo_url n = Inr d \<and> issue_comments d = Some []"
    and "get_issue_data iget cget repo_url n =
         get_issue_data iget (\<lambda>url. Payload []) repo_url n"
  using assms fetch_comments_failure[of cget owner repo n]
  by (simp_all add: get_issue_data_def fetch_comments_empty)

lemma with_metadata_analysis:
  "\<exists>data. with_metadata (analyze_issue g l r d) m = Inr data \<and> data \<noteq> [] \<and>
          map_of data ''metadata'' = Some m"
proof -
  obtain kvs where "analyze_issue g l r d = JObj kvs"
    using analyze_issue_obj by blast
  moreover have "dict_set ''metadata'' m kvs \<noteq> []"
    by (cases kvs) (auto split: if_splits)
  ultimately show ?thesis
    by (simp add: map_of_dict_set)
qed

lemma analyze_fresh_retrieved:
  assumes "get_issue_data (issue_get w) (comments_get w) (req_repo_url request)
             (req_issue_number request) = Inr d"
  shows "\<exists>data. data \<noteq> [] \<and> map_of data ''metadata'' = Some (metadata_of d) \<and>
           analyze_fresh cfg py w request key st =
             (respond (py_pydantic py) data,
              st\<lparr>invocations := invocations st @ [Retriever, Engine],
                 cache := set_cache cfg (time_store w) key data (cache st)\<rparr>)"
proof -
  obtain data where
    "with_metadata (analyze_issue (generate_content w) (json_loads py) (py_repr py) d)
       (metadata_of d) = Inr data" "data \<noteq> []" "map_of data ''metadata'' = Some (metadata_of d)"
    using with_metadata_analysis by blast
  then show ?thesis
    using assms by (auto simp: analyze_fresh_def Let_def)
qed

lemma analyze_fresh_failed:
  assumes "get_issue_data (issue_get w) (comments_get w) (req_repo_url request)
             (req_issue_number request) = Inl e"
  shows "analyze_fresh cfg py w request key st =
           (http_error e, st\<lparr>invocations := invocations st @ [Retriever]\<rparr>)"
  using assms by (simp add: analyze_fresh_def)

lemma endpoint_hit:
  assumes "CACHE_ENABLED cfg"
      and "cache st (get_cache_key (req_repo_url request) (req_issue_number request)) =
             Some (data, ts)"
      and "data \<noteq> []"
      and "time_lookup w - ts < real_of_int (CACHE_TTL cfg)"
  shows "analyze_issue_endpoint cfg py w request st = (respond (py_pydantic py) data, st)"
  using assms by (simp add: analyze_issue_endpoint_def get_from_cache_def)


lemma uncached_metadata_of:
  "map_of data ''metadata'' = Some (metadata_of d) \<Longrightarrow> uncached data"
  by (simp add: uncached_def metadata_of_def)

lemma uncached_respond:
  assumes "uncached data" and "respond pyd data = Response r"
  shows "map_of (r_metadata r) ''cached'' = Some (JBool False)"
proof -
  obtain m where m: "map_of data ''metadata'' = Some (JObj m)"
      "map_of m ''cached'' = Some (JBool False)"
    using assms(1) by (auto simp: uncached_def split: option.splits json.splits)
  have "AnalysisResponse pyd data = Inr r"
    using assms(2) by (cases "AnalysisResponse pyd data") (auto simp: respond_def elim: http_error.elims)
  then have "r_metadata r = m"
    using m(1) by (auto simp: AnalysisResponse_def as_metadata_def split: option.splits prod.splits)
  then show ?thesis
    using m(2) by simp
qed

lemma http_error_not_response: "http_error e \<noteq> Response r"
  by (cases e) auto

lemma get_from_cache_uncached:
  assumes "cache_uncached c" and "get_from_cache cfg now k c = (res, c')"
  shows "cache_uncached c'" and "res = Some data \<Longrightarrow> uncached data"
  using assms
  by (auto simp: get_from_cache_def cache_uncached_def split: if_splits option.splits) blast+

lemma analyze_fresh_uncached:
  assumes "cache_uncached (cache st)" and "analyze_fresh cfg py w request key st = (resp, st')"
  shows "cache_uncached (cache st') \<and>
         (\<forall>r. resp = Response r \<longrightarrow> map_of (r_metadata r) ''cached'' = Some (JBool False))"
proof (cases "get_issue_data (issue_get w) (comments_get w) (req_repo_url request)
                (req_issue_number request)")
  case (Inl e)
  then show ?thesis
    using assms analyze_fresh_failed[OF Inl, of cfg py key st]
    by (auto simp: http_error_not_response)
next
  case (Inr d)
  then obtain data where data: "map_of data ''metadata'' = Some (metadata_of d)"
    "analyze_fresh cfg py w request key st =
       (respond (py_pydantic py) data,
        st\<lparr>invocations := invocations st @ [Retriever, Engine],
           cache := set_cache cfg (time_store w) key data (cache st)\<rparr>)"
    using analyze_fresh_retrieved[OF Inr, of cfg py key st] by blast
  have u: "uncached data"
    using data(1) by (rule uncached_metadata_of)
  have "cache_uncached (set_cache cfg (time_store w) key data (cache st))"
    using assms(1) u by (auto simp: set_cache_def cache_uncached_def)
  then show ?thesis
    using assms(2) data(2) uncached_respond[OF u] by auto
qed

lemma endpoint_uncached:
  assumes "cache_uncached (cache st)" and "analyze_issue_endpoint cfg py w request st = (resp, st')"
  shows "cache_uncached (cache st') \<and>
         (\<forall>r. resp = Response r \<longrightarrow> map_of (r_metadata r) ''cached'' = Some (JBool False))"
proof -
  let ?key = "get_cache_key (req_repo_url request) (req_issue_number request)"
  obtain res c' where g: "get_from_cache cfg (time_lookup w) ?key (cache st) = (res, c')"
    by (cases "get_from_cache cfg (time_lookup w) ?key (cache st)")
  have c': "cache_uncached (cache (st\<lparr>cache := c'\<rparr>))"
    using get_from_cache_uncached(1)[OF assms(1) g] by simp
  show ?thesis
  proof (cases "\<exists>data. res = Some data \<and> data \<noteq> []")
    case True
    then obtain data where d: "res = Some data" "data \<noteq> []" by blast
    then have "resp = respond (py_pydantic py) data" "st' = st\<lparr>cache := c'\<rparr>"
      using assms(2) g by (simp_all add: analyze_issue_endpoint_def)
    then show ?thesis
      using c' uncached_respond[OF get_from_cache_uncached(2)[OF assms(1) g d(1)]] by auto
  next
    case False
    then have "analyze_fresh cfg py w request ?key (st\<lparr>cache := c'\<rparr>) = (resp, st')"
      using assms(2) g by (cases res) (auto simp: analyze_issue_endpoint_def Let_def)
    then show ?thesis
      using analyze_fresh_uncached[OF c'] by blast
  qed
qed

lemma serve_uncached:
  "cache_uncached (cache st) \<Longrightarrow>
   \<forall>resp \<in> set (fst (serve cfg py events st)).
     \<forall>r. resp = Response r \<longrightarrow> map_of (r_metadata r) ''cached'' = Some (JBool False)"
proof (induction events arbitrary: st)
  case Nil
  then show ?case by simp
next
  case (Cons ev events)
  show ?case
  proof (cases ev)
    case (Analyze w request)
    obtain resp st' where e: "analyze_issue_endpoint cfg py w request st = (resp, st')"
      by (cases "analyze_issue_endpoint cfg py w request st")
    have "cache_uncached (cache st')"
      and "\<forall>r. resp = Response r \<longrightarrow> map_of (r_metadata r) ''cached'' = Some (JBool False)"
      using endpoint_uncached[OF Cons.prems e] by blast+
    then show ?thesis
      using Cons.IH[of st'] Analyze e by (auto split: prod.splits)
  next
    case ClearCache
    have "cache_uncached (cache (clear_cache st))"
      by (simp add: clear_cache_def cache_uncached_def)
    then show ?thesis
      using Cons.IH[of "clear_cache st"] ClearCache by simp
  qed
qed

subsection \<open>app.py: the worked example\<close>

lemma str_int_1: "str_int 1 = ''1''"
  by code_simp

lemma ex_key:
  "get_cache_key (req_repo_url ex_request) (req_issue_number ex_request) =
     ''https://github.com/octocat/Hello-World::1''"
  by (simp add: get_cache_key_def ex_request_def str_int_1)

lemma ex_parse:
  "parse_repo_url (req_repo_url ex_request) = Inr (''octocat'', ''Hello-World'')"
  by (simp add: ex_request_def parse_examples(1))

lemma ex_fetch_issue:
  "fetch_issue (issue_get ex_world) ''octocat'' ''Hello-World'' (req_issue_number ex_request) =
     Inr ex_issue"
  by (simp add: fetch_issue_def ex_world_def)

lemma ex_comments_fail:
  "\<forall>p. comments_get ex_world (comments_url ''octocat'' ''Hello-World''
                                 (req_issue_number ex_request)) \<noteq> Payload p"
  by (simp add: ex_world_def)

lemma ex_issue_data:
  "get_issue_data (issue_get ex_world) (comments_get ex_world) (req_repo_url ex_request)
     (req_issue_number ex_request) = Inr ex_record"
  using ex_parse ex_fetch_issue ex_comments_fail
    fetch_comments_failure[of "comments_get ex_world" "''octocat''" "''Hello-World''"
      "req_issue_number ex_request"]
  by (simp add: get_issue_data_def get_or_def ex_issue_def ex_record_def)

lemma ex_analysis:
  "analyze_issue (generate_content ex_world) (json_loads ex_python) (py_repr ex_python) d =
     fallback (ValueError ''LLM analysis failed after 2 attempts: quota exceeded'')"
proof -
  have "attempt_once (generate_content ex_world) l r p n = Inl (OtherError ''quota exceeded'')"
    for l r p n
    by (simp add: attempt_once_def ex_world_def)
  then show ?thesis
    using retry_loop_two_failures by (simp add: analyze_issue_def)
qed

lemma ex_with_metadata:
  "with_metadata
     (analyze_issue (generate_content ex_world) (json_loads ex_python) (py_repr ex_python)
        ex_record)
     (metadata_of ex_record) = Inr ex_data"
  by (simp add: ex_analysis fallback_def metadata_of_def get_or_def ex_data_def ex_record_def)

lemma ex_validation: "AnalysisResponse (py_pydantic ex_python) ex_data = Inr ex_response"
  by (simp add: AnalysisResponse_def as_metadata_def ex_python_def ex_data_def ex_response_def)

lemma ex_respond: "respond (py_pydantic ex_python) ex_data = Response ex_response"
  by (simp add: respond_def ex_validation)

lemma ex_first:
  "analyze_issue_endpoint ex_config ex_python ex_world ex_request initial_state =
     (Response ex_response, ex_state)"
proof -
  have miss: "get_from_cache ex_config (time_lookup ex_world)
                ''https://github.com/octocat/Hello-World::1'' (cache initial_state) =
              (None, Map.empty)"
    by (simp add: get_from_cache_def initial_state_def)
  have ts: "time_store ex_world = 130"
    by (simp add: ex_world_def)
  have fresh: "analyze_fresh ex_config ex_python ex_world ex_request
                 ''https://github.com/octocat/Hello-World::1''
                 (initial_state\<lparr>cache := Map.empty\<rparr>) =
               (Response ex_response, ex_state)"
    unfolding analyze_fresh_def ex_issue_data Let_def
    by (simp add: ex_with_metadata ex_respond set_cache_def ex_config_def ex_state_def
        initial_state_def ts)
  show ?thesis
    unfolding analyze_issue_endpoint_def ex_key Let_def miss
    using fresh by simp
qed

lemma ex_second:
  "analyze_issue_endpoint ex_config ex_python ex_world_later ex_request ex_state =
     (Response ex_response, ex_state)"
proof -
  have "analyze_issue_endpoint ex_config ex_python ex_world_later ex_request ex_state =
          (respond (py_pydantic ex_python) ex_data, ex_state)"
    by (rule endpoint_hit[where ts = 130])
       (simp_all add: ex_config_def ex_key ex_state_def ex_data_def ex_world_later_def)
  then show ?thesis
    by (simp add: ex_respond)
qed


subsection \<open>app.py: properties of the endpoint\<close>

lemma null_user_raises:
  "gh_comment_user c = UserNull \<Longrightarrow> \<exists>m. normalize_comments (c # cs) = Inl (OtherError m)"
  by (simp add: normalize_comment_def comment_author_def)

lemma endpoint_outcome:
  assumes "analyze_issue_endpoint cfg py w request st = (resp, st')"
  shows "invocations st' = invocations st \<or>
         invocations st' = invocations st @ [Retriever] \<or>
         (\<exists>data. data \<noteq> [] \<and> resp = respond (py_pydantic py) data \<and>
            invocations st' = invocations st @ [Retriever, Engine] \<and>
            (CACHE_ENABLED cfg \<longrightarrow>
               cache st' (get_cache_key (req_repo_url request) (req_issue_number request)) =
                 Some (data, time_store w)))"
proof -
  let ?key = "get_cache_key (req_repo_url request) (req_issue_number request)"
  obtain res c' where g: "get_from_cache cfg (time_lookup w) ?key (cache st) = (res, c')"
    by (cases "get_from_cache cfg (time_lookup w) ?key (cache st)")
  show ?thesis
  proof (cases "\<exists>data. res = Some data \<and> data \<noteq> []")
    case True
    then have "st' = st\<lparr>cache := c'\<rparr>"
      using assms g by (auto simp: analyze_issue_endpoint_def)
    then show ?thesis by simp
  next
    case False
    then have f: "analyze_fresh cfg py w request ?key (st\<lparr>cache := c'\<rparr>) = (resp, st')"
      using assms g by (cases res) (auto simp: analyze_issue_endpoint_def Let_def)
    show ?thesis
    proof (cases "get_issue_data (issue_get w) (comments_get w) (req_repo_url request)
                    (req_issue_number request)")
      case (Inl e)
      then show ?thesis
        using f analyze_fresh_failed[OF Inl, of cfg py ?key "st\<lparr>cache := c'\<rparr>"] by auto
    next
      case (Inr d)
      then obtain data where "data \<noteq> []"
        "analyze_fresh cfg py w request ?key (st\<lparr>cache := c'\<rparr>) =
           (respond (py_pydantic py) data,
            st\<lparr>cache := c'\<rparr>\<lparr>invocations := invocations (st\<lparr>cache := c'\<rparr>) @ [Retriever, Engine],
               cache := set_cache cfg (time_store w) ?key data (cache (st\<lparr>cache := c'\<rparr>))\<rparr>)"
        using analyze_fresh_retrieved[OF Inr, of cfg py ?key "st\<lparr>cache := c'\<rparr>"] by blast
      then show ?thesis
        using f by (auto simp: set_cache_def)
    qed
  qed
qed

text \<open>
  C3. With caching enabled, take a request that the endpoint computed, that is, for
  which it called the Retriever and then the Engine, and a second request with the same
  URL and issue number, looked up less than \<open>CACHE_TTL\<close> seconds after an instant of the
  first request that is not later than its store. The second request returns the same
  response as the first and leaves the state as it is: the cache is unchanged and neither
  the Retriever nor the Engine is called again, whatever GitHub and the model would have
  answered.
\<close>

theorem second_request_served_from_cache:
  assumes "CACHE_ENABLED cfg"
      and "analyze_issue_endpoint cfg py w1 request st0 = (resp1, st1)"
      and "invocations st1 = invocations st0 @ [Retriever, Engine]"
      and "t1 \<le> time_store w1"
      and "time_lookup w2 - t1 < real_of_int (CACHE_TTL cfg)"
  shows "analyze_issue_endpoint cfg py w2 request st1 = (resp1, st1)"
proof -
  obtain data where data: "data \<noteq> []" "resp1 = respond (py_pydantic py) data"
    "cache st1 (get_cache_key (req_repo_url request) (req_issue_number request)) =
       Some (data, time_store w1)"
    using endpoint_outcome[OF assms(2)] assms(1,3) by auto
  have "time_lookup w2 - time_store w1 < real_of_int (CACHE_TTL cfg)"
    using assms(4,5) by linarith
  then show ?thesis
    using endpoint_hit[OF assms(1) data(3) data(1)] data(2) by simp
qed

theorem second_request_served_from_cache_witness:
  "analyze_issue_endpoint ex_config ex_python ex_world ex_request initial_state =
     (Response ex_response, ex_state) \<and>
   invocations ex_state = invocations initial_state @ [Retriever, Engine] \<and>
   time_lookup ex_world \<le> time_store ex_world \<and>
   time_lookup ex_world_later - time_lookup ex_world < real_of_int (CACHE_TTL ex_config) \<and>
   analyze_issue_endpoint ex_config ex_python ex_world_later ex_request ex_state =
     (Response ex_response, ex_state)"
proof -
  have en: "CACHE_ENABLED ex_config"
    by (simp add: ex_config_def)
  have inv: "invocations ex_state = invocations initial_state @ [Retriever, Engine]"
    by (simp add: ex_state_def initial_state_def)
  have mono: "time_lookup ex_world \<le> time_store ex_world"
    by (simp add: ex_world_def)
  have within: "time_lookup ex_world_later - time_lookup ex_world < real_of_int (CACHE_TTL ex_config)"
    by (simp add: ex_world_def ex_world_later_def ex_config_def)
  show ?thesis
    using second_request_served_from_cache[OF en ex_first inv mono within] ex_first inv mono within
    by blast
qed

text \<open>
  C5. \<open>fetch_comments\<close> returns the empty list whenever the request for the comments
  does not end in a payload: a status that \<open>raise_for_status\<close> rejects, a timeout or any
  other \<open>RequestException\<close>. When the URL parses and the issue is fetched, \<open>get_issue_data\<close>
  then returns the issue dictionary with \<open>comments\<close> equal to the empty list, and the
  endpoint answers what it answers when the comments request returns an empty list. On a
  request that is not served from the cache, the dictionary of the response is built from
  that record, and when pydantic accepts it the endpoint returns the response: the
  request succeeds.
\<close>

theorem fetch_comments_never_fails:
  "((\<forall>p. cget (comments_url owner repo n) \<noteq> Payload p) \<longrightarrow>
      fetch_comments cget owner repo n = []) \<and>
   (parse_repo_url u = Inr (owner, repo) \<and> fetch_issue iget owner repo n = Inr issue \<and>
    (\<forall>p. cget (comments_url owner repo n) \<noteq> Payload p) \<longrightarrow>
      (\<exists>d. get_issue_data iget cget u n = Inr d \<and> issue_comments d = Some [])) \<and>
   (parse_repo_url (req_repo_url request) = Inr (owner, repo) \<and>
    fetch_issue (issue_get w) owner repo (req_issue_number request) = Inr issue \<and>
    (\<forall>p. comments_get w (comments_url owner repo (req_issue_number request)) \<noteq> Payload p) \<longrightarrow>
      analyze_issue_endpoint cfg py w request st =
        analyze_issue_endpoint cfg py (w\<lparr>comments_get := \<lambda>url. Payload []\<rparr>) request st \<and>
      (\<exists>d data.
         get_issue_data (issue_get w) (comments_get w) (req_repo_url request)
           (req_issue_number request) = Inr d \<and>
         with_metadata (analyze_issue (generate_content w) (json_loads py) (py_repr py) d)
           (metadata_of d) = Inr data)) \<and>
   (parse_repo_url (req_repo_url request) = Inr (owner, repo) \<and>
    fetch_issue (issue_get w) owner repo (req_issue_number request) = Inr issue \<and>
    (\<forall>p. comments_get w (comments_url owner repo (req_issue_number request)) \<noteq> Payload p) \<and>
    fst (get_from_cache cfg (time_lookup w)
           (get_cache_key (req_repo_url request) (req_issue_number request)) (cache st)) = None \<and>
    get_issue_data (issue_get w) (comments_get w) (req_repo_url request)
      (req_issue_number request) = Inr d \<and>
    with_metadata (analyze_issue (generate_content w) (json_loads py) (py_repr py) d)
      (metadata_of d) = Inr data \<and>
    AnalysisResponse (py_pydantic py) data = Inr r \<longrightarrow>
      issue_comments d = Some [] \<and>
      fst (analyze_issue_endpoint cfg py w request st) = Response r)"
proof -
  have 1: "(\<forall>p. cget (comments_url owner repo n) \<noteq> Payload p) \<longrightarrow>
           fetch_comments cget owner repo n = []"
    using fetch_comments_failure[of cget owner repo n] by blast
  have 2: "parse_repo_url u = Inr (owner, repo) \<and> fetch_issue iget owner repo n = Inr issue \<and>
           (\<forall>p. cget (comments_url owner repo n) \<noteq> Payload p) \<longrightarrow>
           (\<exists>d. get_issue_data iget cget u n = Inr d \<and> issue_comments d = Some [])"
    using get_issue_data_comments_failure(1)[of u owner repo iget n issue cget] by blast
  have 3: "analyze_issue_endpoint cfg py w request st =
             analyze_issue_endpoint cfg py (w\<lparr>comments_get := \<lambda>url. Payload []\<rparr>) request st \<and>
           (\<exists>d data.
              get_issue_data (issue_get w) (comments_get w) (req_repo_url request)
                (req_issue_number request) = Inr d \<and>
              with_metadata (analyze_issue (generate_content w) (json_loads py) (py_repr py) d)
                (metadata_of d) = Inr data)"
    if h: "parse_repo_url (req_repo_url request) = Inr (owner, repo)"
      "fetch_issue (issue_get w) owner repo (req_issue_number request) = Inr issue"
      "\<forall>p. comments_get w (comments_url owner repo (req_issue_number request)) \<noteq> Payload p"
  proof -
    let ?w' = "w\<lparr>comments_get := \<lambda>url. Payload []\<rparr>"
    obtain d where d: "get_issue_data (issue_get w) (comments_get w) (req_repo_url request)
                         (req_issue_number request) = Inr d"
      using get_issue_data_comments_failure(1)
              [of "req_repo_url request" owner repo "issue_get w" "req_issue_number request"
                  issue "comments_get w"] h
      by blast
    have same: "get_issue_data (issue_get ?w') (comments_get ?w') (req_repo_url request)
                  (req_issue_number request) =
                get_issue_data (issue_get w) (comments_get w) (req_repo_url request)
                  (req_issue_number request)"
      using get_issue_data_comments_failure(2)
              [of "req_repo_url request" owner repo "issue_get w" "req_issue_number request"
                  issue "comments_get w"] h
      by simp
    have fresh: "analyze_fresh cfg py ?w' request key s = analyze_fresh cfg py w request key s"
      for key s
      unfolding analyze_fresh_def same by (simp add: Let_def split: sum.splits)
    have a: "analyze_issue_endpoint cfg py w request st =
             analyze_issue_endpoint cfg py ?w' request st"
      by (simp add: analyze_issue_endpoint_def fresh Let_def split: prod.splits option.splits)
    obtain data where
      "with_metadata (analyze_issue (generate_content w) (json_loads py) (py_repr py) d)
         (metadata_of d) = Inr data"
      using with_metadata_analysis by blast
    with a d show ?thesis
      by blast
  qed
  have 4: "issue_comments d = Some [] \<and>
           fst (analyze_issue_endpoint cfg py w request st) = Response r"
    if h: "parse_repo_url (req_repo_url request) = Inr (owner, repo)"
      "fetch_issue (issue_get w) owner repo (req_issue_number request) = Inr issue"
      "\<forall>p. comments_get w (comments_url owner repo (req_issue_number request)) \<noteq> Payload p"
    and miss: "fst (get_from_cache cfg (time_lookup w)
                      (get_cache_key (req_repo_url request) (req_issue_number request))
                      (cache st)) = None"
    and d: "get_issue_data (issue_get w) (comments_get w) (req_repo_url request)
              (req_issue_number request) = Inr d"
    and data: "with_metadata (analyze_issue (generate_content w) (json_loads py) (py_repr py) d)
                 (metadata_of d) = Inr data"
    and r: "AnalysisResponse (py_pydantic py) data = Inr r"
  proof -
    have "issue_comments d = Some []"
      using get_issue_data_comments_failure(1)
              [of "req_repo_url request" owner repo "issue_get w" "req_issue_number request"
                  issue "comments_get w"] h d
      by auto
    moreover have "fst (analyze_fresh cfg py w request key s) = Response r" for key s
      using d data r by (simp add: analyze_fresh_def Let_def respond_def)
    then have "fst (analyze_issue_endpoint cfg py w request st) = Response r"
      using miss
      by (cases "get_from_cache cfg (time_lookup w)
                   (get_cache_key (req_repo_url request) (req_issue_number request)) (cache st)")
         (simp add: analyze_issue_endpoint_def Let_def)
    ultimately show ?thesis
      by blast
  qed
  show ?thesis
    using 1 2 3 4 by blast
qed

theorem fetch_comments_never_fails_witness:
  "fetch_comments (comments_get ex_world) ''octocat'' ''Hello-World'' 1 = [] \<and>
   (\<exists>d. get_issue_data (issue_get ex_world) (comments_get ex_world)
           (req_repo_url ex_request) (req_issue_number ex_request) = Inr d \<and>
        issue_comments d = Some []) \<and>
   analyze_issue_endpoint ex_config ex_python ex_world ex_request initial_state =
     analyze_issue_endpoint ex_config ex_python
       (ex_world\<lparr>comments_get := \<lambda>url. Payload []\<rparr>) ex_request initial_state \<and>
   AnalysisResponse (py_pydantic ex_python) ex_data = Inr ex_response \<and>
   issue_comments ex_record = Some [] \<and>
   fst (analyze_issue_endpoint ex_config ex_python ex_world ex_request initial_state) =
     Response ex_response"
proof -
  have n: "req_issue_number ex_request = 1"
    by (simp add: ex_request_def)
  have miss: "fst (get_from_cache ex_config (time_lookup ex_world)
                     (get_cache_key (req_repo_url ex_request) (req_issue_number ex_request))
                     (cache initial_state)) = None"
    by (simp add: get_from_cache_def initial_state_def)
  note t = fetch_comments_never_fails
    [of "comments_get ex_world" "''octocat''" "''Hello-World''" "req_issue_number ex_request"
        "req_repo_url ex_request" "issue_get ex_world" ex_issue ex_request ex_world
        ex_config ex_python initial_state ex_record ex_data ex_response]
  show ?thesis
    using t ex_parse ex_fetch_issue ex_comments_fail miss ex_issue_data ex_with_metadata
      ex_validation
    unfolding n by blast
qed

text \<open>
  C4. At a request whose issue fetch ends in HTTP 500 from GitHub, and at one whose
  issue fetch ends in a connection failure, \<open>fetch_issue\<close> raises a \<open>ValueError\<close> and the
  endpoint answers with status 400.
\<close>

theorem upstream_failure_answered_400:
  "fst (analyze_issue_endpoint ex_config ex_python ex_world_down ex_request initial_state) =
     HTTPException 400 ''GitHub API error: 500 Server Error: Internal Server Error'' \<and>
   fst (analyze_issue_endpoint ex_config ex_python ex_world_later ex_request initial_state) =
     HTTPException 400 ''Failed to connect to GitHub API: Connection refused''"
proof -
  have url: "issue_url ''octocat'' ''Hello-World'' 1 =
               ''https://api.github.com/repos/octocat/Hello-World/issues/1''"
    by (simp add: issue_url_def BASE_URL_def str_int_1)
  have n: "req_issue_number ex_request = 1"
    by (simp add: ex_request_def)
  have miss: "get_from_cache ex_config t ''https://github.com/octocat/Hello-World::1''
                (cache initial_state) = (None, Map.empty)" for t
    by (simp add: get_from_cache_def initial_state_def)
  have down: "get_issue_data (issue_get ex_world_down) (comments_get ex_world_down)
                (req_repo_url ex_request) (req_issue_number ex_request) =
              Inl (ValueError ''GitHub API error: 500 Server Error: Internal Server Error'')"
    using ex_parse by (simp add: get_issue_data_def fetch_issue_def n url ex_world_down_def)
  have refused: "get_issue_data (issue_get ex_world_later) (comments_get ex_world_later)
                (req_repo_url ex_request) (req_issue_number ex_request) =
              Inl (ValueError ''Failed to connect to GitHub API: Connection refused'')"
    using ex_parse by (simp add: get_issue_data_def fetch_issue_def ex_world_later_def)
  show ?thesis
    unfolding analyze_issue_endpoint_def ex_key Let_def miss
    by (simp add: analyze_fresh_failed[OF down] analyze_fresh_failed[OF refused])
qed

text \<open>
  C10. In every run of the process from its start, whatever requests it serves and
  whenever the cache is cleared, every response of the analysis endpoint carries
  \<open>cached\<close> equal to \<open>False\<close> in its metadata, the responses served from the cache
  included: the dictionary is stored with \<open>"cached": False\<close> and returned as it was stored.
\<close>

theorem cached_flag_always_false:
  "\<forall>resp \<in> set (fst (serve cfg py events initial_state)).
     \<forall>r. resp = Response r \<longrightarrow> map_of (r_metadata r) ''cached'' = Some (JBool False)"
  by (rule serve_uncached) (simp add: initial_state_def cache_uncached_def)

theorem cached_flag_always_false_witness:
  "fst (serve ex_config ex_python
          [Analyze ex_world ex_request, Analyze ex_world_later ex_request] initial_state) =
     [Response ex_response, Response ex_response] \<and>
   map_of (r_metadata ex_response) ''cached'' = Some (JBool False)"
proof -
  have run: "fst (serve ex_config ex_python
                    [Analyze ex_world ex_request, Analyze ex_world_later ex_request]
                    initial_state) =
             [Response ex_response, Response ex_response]"
    by (simp add: ex_first ex_second)
  then have "Response ex_response \<in>
             set (fst (serve ex_config ex_python
                         [Analyze ex_world ex_request, Analyze ex_world_later ex_request]
                         initial_state))"
    by simp
  then have "map_of (r_metadata ex_response) ''cached'' = Some (JBool False)"
    using cached_flag_always_false by blast
  with run show ?thesis by blast
qed

end
